theory Spec2Isabelle
  imports Main "HOL-Library.Word" "HOL-Library.Code_Target_Nat"
begin

unbundle bit_operations_syntax

section \<open>The expression model (ast.go)\<close>

text \<open>
  The tags of the eleven variants: \<^verbatim>\<open>const ( TypeModule = iota + 1; TypeNil; ... )\<close>.
  \<^verbatim>\<open>Type\<close> is Go's \<^verbatim>\<open>uint\<close>; its values are modelled as natural numbers.
\<close>

definition TypeModule :: nat where "TypeModule = 1"
definition TypeNil :: nat where "TypeNil = 2"
definition TypeBoolean :: nat where "TypeBoolean = 3"
definition TypeInt32 :: nat where "TypeInt32 = 4"
definition TypeFloat64 :: nat where "TypeFloat64 = 5"
definition TypeString :: nat where "TypeString = 6"
definition TypeID :: nat where "TypeID = 7"
definition TypeDefinition :: nat where "TypeDefinition = 8"
definition TypeLambda :: nat where "TypeLambda = 9"
definition TypeCall :: nat where "TypeCall = 10"
definition TypeAnonymousCall :: nat where "TypeAnonymousCall = 11"

lemmas Type_defs =
  TypeModule_def TypeNil_def TypeBoolean_def TypeInt32_def TypeFloat64_def TypeString_def
  TypeID_def TypeDefinition_def TypeLambda_def TypeCall_def TypeAnonymousCall_def

text \<open>
  A \<^verbatim>\<open>float64\<close> is its 64-bit IEEE-754 pattern. An \<^verbatim>\<open>int32\<close> is a 32-bit word read
  in two's complement (\<open>sint\<close>).
\<close>

type_synonym float64 = "64 word"
type_synonym int32 = "32 word"

text \<open>
  The structs. \<^verbatim>\<open>Expression\<close> is the interface; a value of it holds a pointer to one of the
  eleven structs, which the constructors \<open>EModule\<close> ... \<open>EAnonymousCall\<close> inject. Fields
  typed \<^verbatim>\<open>*ID\<close>, \<^verbatim>\<open>*Lambda\<close>, \<^verbatim>\<open>[]*Definition\<close> keep their static type. Pointers are
  taken to be non-nil, and a slice is the list of its elements (Go's nil slice and its empty
  slice are both the empty list).
\<close>

datatype ID = ID string

datatype Expression =
    EModule Module
  | ENil
  | EBoolean bool
  | EInt32 int32
  | EFloat64 float64
  | EString string
  | EID ID
  | EDefinition Definition
  | ELambda Lambda
  | ECall Call
  | EAnonymousCall AnonymousCall
and Definition = Definition ID Expression
and Lambda = Lambda "ID list" Expression
and Call = Call ID "Expression list"
and AnonymousCall = AnonymousCall Lambda "Expression list"
and Module = Module string "Definition list"

text \<open>The method \<^verbatim>\<open>Type()\<close> of each struct, dispatched through the interface.\<close>

fun Type :: "Expression \<Rightarrow> nat" where
  "Type (EModule m) = TypeModule"
| "Type ENil = TypeNil"
| "Type (EBoolean b) = TypeBoolean"
| "Type (EInt32 i) = TypeInt32"
| "Type (EFloat64 f) = TypeFloat64"
| "Type (EString s) = TypeString"
| "Type (EID i) = TypeID"
| "Type (EDefinition d) = TypeDefinition"
| "Type (ELambda l) = TypeLambda"
| "Type (ECall c) = TypeCall"
| "Type (EAnonymousCall c) = TypeAnonymousCall"

section \<open>Errors\<close>

text \<open>
  \<^verbatim>\<open>ErrInvalidJSON\<close> is the package's own error. \<open>NumError\<close> is \<^verbatim>\<open>*strconv.NumError\<close>
  with its fields \<^verbatim>\<open>Func\<close>, \<^verbatim>\<open>Num\<close> and \<^verbatim>\<open>Err\<close>. \<open>Panic\<close> is not an error value but a
  run-time panic with its message. No function of the package recovers from a panic, so it
  ends every enclosing call; the model passes it up the way it passes an error.
\<close>

datatype num_err = ErrSyntax | ErrRange

datatype error =
    ErrInvalidJSON
  | NumError string string num_err
  | Panic string

text \<open>The errors that a function returns as its second result, as opposed to a panic.\<close>

fun returned :: "error \<Rightarrow> bool" where
  "returned (Panic msg) = False"
| "returned err = True"

section \<open>The standard library: strconv\<close>

text \<open>
  The decimal digits of an unsigned number, most significant first, and
  \<^verbatim>\<open>strconv.FormatInt(i, 10)\<close>: a minus sign in front of the digits of a negative number.
\<close>

definition digit_char :: "nat \<Rightarrow> char" where
  "digit_char d = char_of (48 + d)"

fun formatBits :: "nat \<Rightarrow> string" where
  "formatBits n = (if n < 10 then [digit_char n] else formatBits (n div 10) @ [digit_char (n mod 10)])"

declare formatBits.simps [simp del]

definition FormatInt :: "int \<Rightarrow> string" where
  "FormatInt i = (if i < 0 then CHR ''-'' # formatBits (nat (- i)) else formatBits (nat i))"

definition is_digit :: "char \<Rightarrow> bool" where
  "is_digit c \<longleftrightarrow> (48::nat) \<le> of_char c \<and> of_char c \<le> (57::nat)"

definition digit_val :: "char \<Rightarrow> nat" where
  "digit_val c = of_char c - 48"

text \<open>
  \<^verbatim>\<open>strconv.ParseUint(s, 10, bitSize)\<close>. Go returns a pair (value, error); the error is
  \<open>None\<close> for \<^verbatim>\<open>nil\<close>. \<open>n\<close> is a \<^verbatim>\<open>uint64\<close>: the addition wraps modulo \<open>2 ^ 64\<close>, and the
  code detects the wrap by \<^verbatim>\<open>n1 < n\<close>. In base 10 a byte that is not a decimal digit is a
  syntax error (letters are digits of a larger base, the underscore belongs to base 0).
\<close>

definition maxUint64 :: nat where
  "maxUint64 = 2 ^ 64 - 1"

fun ParseUint_loop :: "nat \<Rightarrow> nat \<Rightarrow> string \<Rightarrow> nat \<times> num_err option" where
  "ParseUint_loop maxVal n [] = (n, None)"
| "ParseUint_loop maxVal n (c # cs) =
     (if \<not> is_digit c then (0, Some ErrSyntax)
      else if n \<ge> maxUint64 div 10 + 1 then (maxVal, Some ErrRange)
      else let n' = n * 10; n1 = (n' + digit_val c) mod 2 ^ 64
           in if n1 < n' \<or> n1 > maxVal then (maxVal, Some ErrRange)
              else ParseUint_loop maxVal n1 cs)"

definition ParseUint :: "string \<Rightarrow> nat \<Rightarrow> nat \<times> num_err option" where
  "ParseUint s bitSize =
     (if s = [] then (0, Some ErrSyntax) else ParseUint_loop (2 ^ bitSize - 1) 0 s)"

text \<open>
  \<^verbatim>\<open>strconv.ParseInt(s, 10, bitSize)\<close>: the sign is picked off, the rest goes through
  \<^verbatim>\<open>ParseUint\<close>; a syntax error returns at once, a range error falls through to the cutoff
  test with \<open>un = maxVal\<close>. Every error is a \<^verbatim>\<open>NumError\<close> with \<^verbatim>\<open>Func = "ParseInt"\<close> and
  \<^verbatim>\<open>Num\<close> the whole input.
\<close>

definition ParseInt :: "string \<Rightarrow> nat \<Rightarrow> error + int" where
  "ParseInt s bitSize =
     (if s = [] then Inl (NumError ''ParseInt'' s ErrSyntax)
      else
        let neg = (hd s = CHR ''-'');
            s' = (if hd s = CHR ''+'' \<or> hd s = CHR ''-'' then tl s else s);
            (un, err) = ParseUint s' bitSize
        in if err = Some ErrSyntax then Inl (NumError ''ParseInt'' s ErrSyntax)
           else
             let cutoff = (2::nat) ^ (bitSize - 1)
             in if \<not> neg \<and> un \<ge> cutoff then Inl (NumError ''ParseInt'' s ErrRange)
                else if neg \<and> un > cutoff then Inl (NumError ''ParseInt'' s ErrRange)
                else Inr (if neg then - int un else int un))"

text \<open>
  The floating-point half of strconv, and the float reader of the JSON library, are not
  defined here: they are parameters of the model. \<open>FormatFloat f\<close> stands for
  \<^verbatim>\<open>strconv.FormatFloat(f, 'f', -1, 64)\<close>, \<open>ParseFloat s\<close> for \<^verbatim>\<open>strconv.ParseFloat(s, 64)\<close>
  (the kind of its \<^verbatim>\<open>NumError\<close>, or the value), and \<open>ReadFloat64 buf\<close> for what the library's
  iterator reads from the text of a JSON number.
\<close>

record floats =
  FormatFloat :: "float64 \<Rightarrow> string"
  ParseFloat :: "string \<Rightarrow> num_err + float64"
  ReadFloat64 :: "string \<Rightarrow> float64"

section \<open>The JSON library: jsoniter.Any\<close>

text \<open>
  \<^verbatim>\<open>jsoniter.Any\<close> (github.com/json-iterator/go) is not part of the repository. Its values
  are modelled as what \<^verbatim>\<open>jsoniter.Get\<close> yields on a JSON text, one constructor for each
  implementation of the interface that parsing produces, named as in the library:
  \<^item> \<open>invalidAny\<close>: the result of \<^verbatim>\<open>Get\<close> on a missing path;
  \<^item> \<open>nilAny\<close>, \<open>trueAny\<close>, \<open>falseAny\<close>: the literals \<^verbatim>\<open>null\<close>, \<^verbatim>\<open>true\<close>, \<^verbatim>\<open>false\<close>;
  \<^item> \<open>numberLazyAny buf\<close>: a number, kept as its text;
  \<^item> \<open>stringAny val\<close>: a string, decoded;
  \<^item> \<open>arrayLazyAny buf elems\<close> and \<open>objectLazyAny buf kvs\<close>: an array or an object, kept as
    its text \<open>buf\<close>; \<open>elems\<close> and \<open>kvs\<close> are what iterating over \<open>buf\<close> yields, the fields
    in the order of the text, duplicate keys included.
\<close>

datatype Any =
    invalidAny
  | nilAny
  | trueAny
  | falseAny
  | numberLazyAny string
  | stringAny string
  | arrayLazyAny string "Any list"
  | objectLazyAny string "(string \<times> Any) list"

text \<open>
  \<^verbatim>\<open>any.Get(key)\<close> with one string key: the first field of that name in an object, the
  invalid value when there is none; every other kind of value answers with the invalid value.
\<close>

fun Get :: "string \<Rightarrow> Any \<Rightarrow> Any" where
  "Get key (objectLazyAny buf kvs) =
     (case map_of kvs key of None \<Rightarrow> invalidAny | Some v \<Rightarrow> v)"
| "Get key a = invalidAny"

text \<open>
  \<^verbatim>\<open>Iterator.ReadUint64\<close> on the text of a number: a first byte that is not a digit (the
  minus sign) gives 0, a leading zero gives 0, otherwise the digits are accumulated up to the
  first byte that is not one (a fraction or an exponent is cut off); an overflow of the
  \<^verbatim>\<open>uint64\<close> gives 0. \<^verbatim>\<open>uint\<close> is taken to be 64 bits wide.
\<close>

definition uint64SafeToMultiple10 :: nat where
  "uint64SafeToMultiple10 = maxUint64 div 10 - 1"

fun readUint64_loop :: "nat \<Rightarrow> string \<Rightarrow> nat" where
  "readUint64_loop v [] = v"
| "readUint64_loop v (c # cs) =
     (if \<not> is_digit c then v
      else if v > uint64SafeToMultiple10 then
        (let v2 = (v * 10 + digit_val c) mod 2 ^ 64
         in if v2 < v then 0 else readUint64_loop v2 cs)
      else readUint64_loop (v * 10 + digit_val c) cs)"

fun readUint64 :: "string \<Rightarrow> nat" where
  "readUint64 [] = 0"
| "readUint64 (c # cs) =
     (if \<not> is_digit c then 0
      else if digit_val c = 0 then 0
      else readUint64_loop (digit_val c) cs)"

text \<open>
  \<^verbatim>\<open>stringAny.ToUint64\<close>: empty text and text that starts with a minus sign give 0; after an
  optional plus sign the longest run of digits is handed to \<^verbatim>\<open>strconv.ParseUint\<close>, whose
  error is dropped.
\<close>

definition stringAny_ToUint64 :: "string \<Rightarrow> nat" where
  "stringAny_ToUint64 val =
     (if val = [] then 0
      else if hd val = CHR ''-'' then 0
      else fst (ParseUint (takeWhile is_digit (if hd val = CHR ''+'' then tl val else val)) 64))"

text \<open>\<^verbatim>\<open>any.ToUint()\<close>, by implementation.\<close>

fun ToUint :: "Any \<Rightarrow> nat" where
  "ToUint invalidAny = 0"
| "ToUint nilAny = 0"
| "ToUint trueAny = 1"
| "ToUint falseAny = 0"
| "ToUint (numberLazyAny buf) = readUint64 buf"
| "ToUint (stringAny val) = stringAny_ToUint64 val"
| "ToUint (arrayLazyAny buf elems) = (if elems = [] then 0 else 1)"
| "ToUint (objectLazyAny buf kvs) = 0"

text \<open>\<^verbatim>\<open>any.ToString()\<close>: a lazy value answers with its text.\<close>

fun ToString :: "Any \<Rightarrow> string" where
  "ToString invalidAny = ''''"
| "ToString nilAny = ''''"
| "ToString trueAny = ''true''"
| "ToString falseAny = ''false''"
| "ToString (numberLazyAny buf) = buf"
| "ToString (stringAny val) = val"
| "ToString (arrayLazyAny buf elems) = buf"
| "ToString (objectLazyAny buf kvs) = buf"

text \<open>
  \<^verbatim>\<open>any.ToBool()\<close>: a number is true when it reads as a float other than zero (of either
  sign), a string when it is not \<^verbatim>\<open>"0"\<close> and has a byte that is not white space, an array
  when it has an element, an object always.
\<close>

definition is_space :: "char \<Rightarrow> bool" where
  "is_space c \<longleftrightarrow> c = CHR '' '' \<or> c = CHR 0x0A \<or> c = CHR 0x0D \<or> c = CHR 0x09"

fun ToBool :: "floats \<Rightarrow> Any \<Rightarrow> bool" where
  "ToBool fl invalidAny = False"
| "ToBool fl nilAny = False"
| "ToBool fl trueAny = True"
| "ToBool fl falseAny = False"
| "ToBool fl (numberLazyAny buf) = (ReadFloat64 fl buf AND 0x7FFFFFFFFFFFFFFF \<noteq> 0)"
| "ToBool fl (stringAny val) = (val \<noteq> ''0'' \<and> (\<exists>c \<in> set val. \<not> is_space c))"
| "ToBool fl (arrayLazyAny buf elems) = (elems \<noteq> [])"
| "ToBool fl (objectLazyAny buf kvs) = True"

text \<open>
  \<^verbatim>\<open>any.ToVal(&xs)\<close> with \<^verbatim>\<open>xs\<close> a nil \<^verbatim>\<open>[]jsoniter.Any\<close>; the result is \<^verbatim>\<open>xs\<close> afterwards.
  An array fills the slice with its elements. An object runs the slice decoder on its text,
  which reports an error to the iterator and leaves the slice as it was. The other
  implementations inherit \<^verbatim>\<open>baseAny.ToVal\<close>, which is \<^verbatim>\<open>panic("not implemented")\<close>.
\<close>

fun ToVal :: "Any \<Rightarrow> error + Any list" where
  "ToVal (arrayLazyAny buf elems) = Inr elems"
| "ToVal (objectLazyAny buf kvs) = Inr []"
| "ToVal a = Inl (Panic ''not implemented'')"

section \<open>The decoder (ast_json.go)\<close>

text \<open>
  The loop \<^verbatim>\<open>for i, json := range xs { y, err := f(json); if err != nil { return nil, err };
  ys[i] = y }\<close> that four of the constructors run over a slice: the elements are decoded
  in order, the first error ends the loop and is returned as it is.
\<close>

fun decode_each :: "('a \<Rightarrow> error + 'b) \<Rightarrow> 'a list \<Rightarrow> error + 'b list" where
  "decode_each f [] = Inr []"
| "decode_each f (x # xs) =
     (case f x of
        Inl err \<Rightarrow> Inl err
      | Inr y \<Rightarrow> (case decode_each f xs of Inl err \<Rightarrow> Inl err | Inr ys \<Rightarrow> Inr (y # ys)))"

lemma decode_each_cong [fundef_cong]:
  "xs = ys \<Longrightarrow> (\<And>x. x \<in> set ys \<Longrightarrow> f x = g x) \<Longrightarrow> decode_each f xs = decode_each g ys"
  by (induction ys arbitrary: xs) (auto split: sum.splits)

text \<open>
  The constructors of the variants without children. Each one checks its own tag first.
  \<^verbatim>\<open>*Nil\<close> has no content, so the result of \<open>NewNilFromJSON\<close> is the unit value.
\<close>

definition NewNilFromJSON :: "Any \<Rightarrow> error + unit" where
  "NewNilFromJSON json =
     (if ToUint (Get ''type'' json) \<noteq> TypeNil then Inl ErrInvalidJSON else Inr ())"

definition NewBooleanFromJSON :: "floats \<Rightarrow> Any \<Rightarrow> error + bool" where
  "NewBooleanFromJSON fl json =
     (if ToUint (Get ''type'' json) \<noteq> TypeBoolean then Inl ErrInvalidJSON
      else let value = ToBool fl (Get ''value'' json) in Inr value)"

definition NewInt32FromJSON :: "Any \<Rightarrow> error + int32" where
  "NewInt32FromJSON json =
     (if ToUint (Get ''type'' json) \<noteq> TypeInt32 then Inl ErrInvalidJSON
      else case ParseInt (ToString (Get ''value'' json)) 32 of
             Inl err \<Rightarrow> Inl err
           | Inr value \<Rightarrow> Inr (word_of_int value))"

definition NewFloat64FromJSON :: "floats \<Rightarrow> Any \<Rightarrow> error + float64" where
  "NewFloat64FromJSON fl json =
     (if ToUint (Get ''type'' json) \<noteq> TypeFloat64 then Inl ErrInvalidJSON
      else let s = ToString (Get ''value'' json)
           in case ParseFloat fl s of
                Inl k \<Rightarrow> Inl (NumError ''ParseFloat'' s k)
              | Inr value \<Rightarrow> Inr value)"

definition NewStringFromJSON :: "Any \<Rightarrow> error + string" where
  "NewStringFromJSON json =
     (if ToUint (Get ''type'' json) \<noteq> TypeString then Inl ErrInvalidJSON
      else let value = ToString (Get ''value'' json) in Inr value)"

definition NewIDFromJSON :: "Any \<Rightarrow> error + ID" where
  "NewIDFromJSON json =
     (if ToUint (Get ''type'' json) \<noteq> TypeID then Inl ErrInvalidJSON
      else let value = ToString (Get ''value'' json) in Inr (ID value))"

text \<open>
  The constructors of the variants with children and the dispatcher call each other. The
  recursion ends because a constructor passes on only fields and elements of its input,
  and it does so only after its tag test, which an input that is not an object fails.
\<close>

lemma size_map_of:
  "map_of kvs key = Some v \<Longrightarrow> size v < Suc (size_list (size_prod (\<lambda>_. 0) size) kvs)"
  by (induction kvs) (auto split: if_splits)

lemma size_Get_le: "size (Get key json) \<le> size json"
  by (cases json) (auto split: option.splits dest: size_map_of)

lemma ToUint_Get_object:
  "ToUint (Get key json) \<noteq> 0 \<Longrightarrow> \<exists>buf kvs. json = objectLazyAny buf kvs"
  by (cases json) auto

lemma size_Get_less: "ToUint (Get ''type'' json) \<noteq> 0 \<Longrightarrow> size (Get key json) < size json"
  by (cases json) (auto split: option.splits dest: size_map_of)

lemma size_ToVal: "ToVal a = Inr xs \<Longrightarrow> x \<in> set xs \<Longrightarrow> size x < size a"
  by (cases a) (auto simp: less_Suc_eq_le size_list_estimation')

lemma size_elem_less:
  assumes "ToVal (Get key json) = Inr xs" and "x \<in> set xs"
  shows "size x < size json"
proof -
  have "size x < size (Get key json)"
    using assms by (rule size_ToVal)
  also have "\<dots> \<le> size json"
    by (rule size_Get_le)
  finally show ?thesis .
qed

function NewExpressionFromJSON :: "floats \<Rightarrow> Any \<Rightarrow> error + Expression"
  and NewModuleFromJSON :: "floats \<Rightarrow> Any \<Rightarrow> error + Module"
  and NewDefinitionFromJSON :: "floats \<Rightarrow> Any \<Rightarrow> error + Definition"
  and NewLambdaFromJSON :: "floats \<Rightarrow> Any \<Rightarrow> error + Lambda"
  and NewCallFromJSON :: "floats \<Rightarrow> Any \<Rightarrow> error + Call"
  and NewAnonymousCallFromJSON :: "floats \<Rightarrow> Any \<Rightarrow> error + AnonymousCall"
where
  "NewExpressionFromJSON fl json =
     (let t = ToUint (Get ''type'' json)
      in if t = TypeModule then map_sum id EModule (NewModuleFromJSON fl json)
         else if t = TypeNil then map_sum id (\<lambda>_. ENil) (NewNilFromJSON json)
         else if t = TypeBoolean then map_sum id EBoolean (NewBooleanFromJSON fl json)
         else if t = TypeInt32 then map_sum id EInt32 (NewInt32FromJSON json)
         else if t = TypeFloat64 then map_sum id EFloat64 (NewFloat64FromJSON fl json)
         else if t = TypeString then map_sum id EString (NewStringFromJSON json)
         else if t = TypeID then map_sum id EID (NewIDFromJSON json)
         else if t = TypeDefinition then map_sum id EDefinition (NewDefinitionFromJSON fl json)
         else if t = TypeLambda then map_sum id ELambda (NewLambdaFromJSON fl json)
         else if t = TypeCall then map_sum id ECall (NewCallFromJSON fl json)
         else if t = TypeAnonymousCall then
           map_sum id EAnonymousCall (NewAnonymousCallFromJSON fl json)
         else Inl ErrInvalidJSON)"
| "NewModuleFromJSON fl json =
     (if ToUint (Get ''type'' json) \<noteq> TypeModule then Inl ErrInvalidJSON
      else
        let name = ToString (Get ''name'' json)
        in case ToVal (Get ''definitions'' json) of
             Inl err \<Rightarrow> Inl err
           | Inr jsonDefinitions \<Rightarrow>
               (case decode_each (NewDefinitionFromJSON fl) jsonDefinitions of
                  Inl err \<Rightarrow> Inl err
                | Inr definitions \<Rightarrow> Inr (Module name definitions)))"
| "NewDefinitionFromJSON fl json =
     (if ToUint (Get ''type'' json) \<noteq> TypeDefinition then Inl ErrInvalidJSON
      else case NewIDFromJSON (Get ''id'' json) of
             Inl err \<Rightarrow> Inl err
           | Inr id' \<Rightarrow>
               (case NewExpressionFromJSON fl (Get ''expression'' json) of
                  Inl err \<Rightarrow> Inl err
                | Inr expression \<Rightarrow> Inr (Definition id' expression)))"
| "NewLambdaFromJSON fl json =
     (if ToUint (Get ''type'' json) \<noteq> TypeLambda then Inl ErrInvalidJSON
      else case ToVal (Get ''parameters'' json) of
             Inl err \<Rightarrow> Inl err
           | Inr jsonParameters \<Rightarrow>
               (case decode_each NewIDFromJSON jsonParameters of
                  Inl err \<Rightarrow> Inl err
                | Inr parameters \<Rightarrow>
                    (case NewExpressionFromJSON fl (Get ''expression'' json) of
                       Inl err \<Rightarrow> Inl err
                     | Inr expression \<Rightarrow> Inr (Lambda parameters expression))))"
| "NewCallFromJSON fl json =
     (if ToUint (Get ''type'' json) \<noteq> TypeCall then Inl ErrInvalidJSON
      else case NewIDFromJSON (Get ''id'' json) of
             Inl err \<Rightarrow> Inl err
           | Inr id' \<Rightarrow>
               (case ToVal (Get ''arguments'' json) of
                  Inl err \<Rightarrow> Inl err
                | Inr jsonArguments \<Rightarrow>
                    (case decode_each (NewExpressionFromJSON fl) jsonArguments of
                       Inl err \<Rightarrow> Inl err
                     | Inr arguments \<Rightarrow> Inr (Call id' arguments))))"
| "NewAnonymousCallFromJSON fl json =
     (if ToUint (Get ''type'' json) \<noteq> TypeAnonymousCall then Inl ErrInvalidJSON
      else case NewLambdaFromJSON fl (Get ''lambda'' json) of
             Inl err \<Rightarrow> Inl err
           | Inr lambda \<Rightarrow>
               (case ToVal (Get ''arguments'' json) of
                  Inl err \<Rightarrow> Inl err
                | Inr jsonArguments \<Rightarrow>
                    (case decode_each (NewExpressionFromJSON fl) jsonArguments of
                       Inl err \<Rightarrow> Inl err
                     | Inr arguments \<Rightarrow> Inr (AnonymousCall lambda arguments))))"
  by pat_completeness auto

termination
  apply (relation "measure (\<lambda>x. case x of
      Inl (Inl (fl, j)) \<Rightarrow> 2 * size j + 1
    | Inl (Inr (Inl (fl, j))) \<Rightarrow> 2 * size j
    | Inl (Inr (Inr (fl, j))) \<Rightarrow> 2 * size j
    | Inr (Inl (fl, j)) \<Rightarrow> 2 * size j
    | Inr (Inr (Inl (fl, j))) \<Rightarrow> 2 * size j
    | Inr (Inr (Inr (fl, j))) \<Rightarrow> 2 * size j)")
                      apply simp_all
  subgoal for json x b xa
    by (rule size_elem_less)
  subgoal for json b
    using size_Get_less [of json "''expression''"] by (simp add: Type_defs)
  subgoal for json b ba
    using size_Get_less [of json "''expression''"] by (simp add: Type_defs)
  subgoal for json b ba x
    using size_elem_less [of "''arguments''" json ba x] by simp
  subgoal for json
    using size_Get_less [of json "''lambda''"] by (simp add: Type_defs)
  subgoal for fl json b ba x
    using size_elem_less [of "''arguments''" json ba x] by simp
  done


declare NewExpressionFromJSON.simps [simp del] NewModuleFromJSON.simps [simp del]
  NewDefinitionFromJSON.simps [simp del] NewLambdaFromJSON.simps [simp del]
  NewCallFromJSON.simps [simp del] NewAnonymousCallFromJSON.simps [simp del]

section \<open>The encoder (ast_json.go)\<close>

text \<open>
  What the methods \<^verbatim>\<open>JSON()\<close> build: a \<^verbatim>\<open>map[string]interface{}\<close> whose values are an
  \<^verbatim>\<open>int\<close> (the tag, an untyped constant), a \<^verbatim>\<open>bool\<close>, a \<^verbatim>\<open>string\<close>, another such map or
  a \<^verbatim>\<open>[]map[string]interface{}\<close>. A map literal is the list of its entries in the order
  they are written; the keys of every literal are distinct.
\<close>

datatype gvalue =
    GoInt int
  | GoBool bool
  | GoString string
  | GoMap "(string \<times> gvalue) list"
  | GoSlice "gvalue list"

definition Nil_JSON :: gvalue where
  "Nil_JSON = GoMap [(''type'', GoInt (int TypeNil))]"

definition Boolean_JSON :: "bool \<Rightarrow> gvalue" where
  "Boolean_JSON b = GoMap [(''type'', GoInt (int TypeBoolean)), (''value'', GoBool b)]"

definition Int32_JSON :: "int32 \<Rightarrow> gvalue" where
  "Int32_JSON i =
     GoMap [(''type'', GoInt (int TypeInt32)), (''value'', GoString (FormatInt (sint i)))]"

definition Float64_JSON :: "floats \<Rightarrow> float64 \<Rightarrow> gvalue" where
  "Float64_JSON fl f =
     GoMap [(''type'', GoInt (int TypeFloat64)), (''value'', GoString (FormatFloat fl f))]"

definition String_JSON :: "string \<Rightarrow> gvalue" where
  "String_JSON s = GoMap [(''type'', GoInt (int TypeString)), (''value'', GoString s)]"

text \<open>
  \<open>JSON\<close> is the method called through the interface \<^verbatim>\<open>Expression\<close>; the other functions
  are the methods of the structs.
\<close>

fun ID_JSON :: "ID \<Rightarrow> gvalue" where
  "ID_JSON (ID v) = GoMap [(''type'', GoInt (int TypeID)), (''value'', GoString v)]"

fun JSON :: "floats \<Rightarrow> Expression \<Rightarrow> gvalue"
  and Definition_JSON :: "floats \<Rightarrow> Definition \<Rightarrow> gvalue"
  and Lambda_JSON :: "floats \<Rightarrow> Lambda \<Rightarrow> gvalue"
  and Call_JSON :: "floats \<Rightarrow> Call \<Rightarrow> gvalue"
  and AnonymousCall_JSON :: "floats \<Rightarrow> AnonymousCall \<Rightarrow> gvalue"
  and Module_JSON :: "floats \<Rightarrow> Module \<Rightarrow> gvalue"
where
  "JSON fl (EModule m) = Module_JSON fl m"
| "JSON fl ENil = Nil_JSON"
| "JSON fl (EBoolean b) = Boolean_JSON b"
| "JSON fl (EInt32 i) = Int32_JSON i"
| "JSON fl (EFloat64 f) = Float64_JSON fl f"
| "JSON fl (EString s) = String_JSON s"
| "JSON fl (EID i) = ID_JSON i"
| "JSON fl (EDefinition d) = Definition_JSON fl d"
| "JSON fl (ELambda l) = Lambda_JSON fl l"
| "JSON fl (ECall c) = Call_JSON fl c"
| "JSON fl (EAnonymousCall c) = AnonymousCall_JSON fl c"
| "Definition_JSON fl (Definition i e) =
     GoMap [(''type'', GoInt (int TypeDefinition)),
            (''id'', ID_JSON i),
            (''expression'', JSON fl e)]"
| "Lambda_JSON fl (Lambda ps e) =
     (let parameters = map ID_JSON ps
      in GoMap [(''type'', GoInt (int TypeLambda)),
                (''parameters'', GoSlice parameters),
                (''expression'', JSON fl e)])"
| "Call_JSON fl (Call i as) =
     (let arguments = map (JSON fl) as
      in GoMap [(''type'', GoInt (int TypeCall)),
                (''id'', ID_JSON i),
                (''arguments'', GoSlice arguments)])"
| "AnonymousCall_JSON fl (AnonymousCall l as) =
     (let arguments = map (JSON fl) as
      in GoMap [(''type'', GoInt (int TypeAnonymousCall)),
                (''lambda'', Lambda_JSON fl l),
                (''arguments'', GoSlice arguments)])"
| "Module_JSON fl (Module name ds) =
     (let definitions = map (Definition_JSON fl) ds
      in GoMap [(''type'', GoInt (int TypeModule)),
                (''definitions'', GoSlice definitions)])"

text \<open>
  The tests hand the encoder's result to the decoder as
  \<^verbatim>\<open>jsoniter.Get(jsoniter.Marshal(e.JSON()))\<close>. The functions below say what \<^verbatim>\<open>Any\<close> that is.

  A string does not always come back as it went in. The writer copies well-formed UTF-8 (with
  escapes that the reader undoes) and writes \<^verbatim>\<open>\ufffd\<close> for every byte that
  \<^verbatim>\<open>utf8.DecodeRuneInString\<close> reports as an encoding error of width 1; the reader turns that
  escape into the three bytes \<open>EF BF BD\<close>. \<open>rune_size s\<close> is the width of the well-formed
  encoding at the head of \<open>s\<close>, 0 when there is none.
\<close>

definition in_bytes :: "nat \<Rightarrow> nat \<Rightarrow> char \<Rightarrow> bool" where
  "in_bytes lo hi c \<longleftrightarrow> lo \<le> of_char c \<and> of_char c \<le> hi"

fun tail_ok :: "nat \<Rightarrow> nat \<Rightarrow> nat \<Rightarrow> string \<Rightarrow> nat" where
  "tail_ok lo hi n (c # cs) =
     (if in_bytes lo hi c \<and> list_all (in_bytes 0x80 0xBF) (take n cs) \<and> n \<le> length cs
      then n + 2 else 0)"
| "tail_ok lo hi n [] = 0"

definition rune_size :: "string \<Rightarrow> nat" where
  "rune_size s =
     (case s of
        [] \<Rightarrow> 0
      | b # bs \<Rightarrow>
          if in_bytes 0x00 0x7F b then 1
          else if in_bytes 0xC2 0xDF b then tail_ok 0x80 0xBF 0 bs
          else if in_bytes 0xE0 0xE0 b then tail_ok 0xA0 0xBF 1 bs
          else if in_bytes 0xE1 0xEC b then tail_ok 0x80 0xBF 1 bs
          else if in_bytes 0xED 0xED b then tail_ok 0x80 0x9F 1 bs
          else if in_bytes 0xEE 0xEF b then tail_ok 0x80 0xBF 1 bs
          else if in_bytes 0xF0 0xF0 b then tail_ok 0x90 0xBF 2 bs
          else if in_bytes 0xF1 0xF3 b then tail_ok 0x80 0xBF 2 bs
          else if in_bytes 0xF4 0xF4 b then tail_ok 0x80 0x8F 2 bs
          else 0)"

text \<open>
  \<open>wire_string_from k s\<close> copies the \<open>k\<close> bytes that are left of the current encoding and
  then goes on rune by rune; \<open>wire_string s\<close> is the string that is read back for \<open>s\<close>.
\<close>

fun wire_string_from :: "nat \<Rightarrow> string \<Rightarrow> string" where
  "wire_string_from k [] = []"
| "wire_string_from (Suc k) (b # bs) = b # wire_string_from k bs"
| "wire_string_from 0 (b # bs) =
     (case rune_size (b # bs) of
        0 \<Rightarrow> [CHR 0xEF, CHR 0xBF, CHR 0xBD] @ wire_string_from 0 bs
      | Suc k \<Rightarrow> b # wire_string_from k bs)"

definition wire_string :: "string \<Rightarrow> string" where
  "wire_string s = wire_string_from 0 s"

text \<open>
  \<open>wire_any text v\<close> is the \<^verbatim>\<open>Any\<close> that the reader builds for the text of \<open>v\<close>: an
  \<^verbatim>\<open>int\<close> is written in decimal and kept as that text, a string and a key go through
  \<open>wire_string\<close>, a map or a slice becomes a lazy object or array over its text. The text of
  a map or slice is not modelled: it is the parameter \<open>text\<close>.
\<close>

fun wire_any :: "(gvalue \<Rightarrow> string) \<Rightarrow> gvalue \<Rightarrow> Any" where
  "wire_any text (GoInt i) = numberLazyAny (FormatInt i)"
| "wire_any text (GoBool b) = (if b then trueAny else falseAny)"
| "wire_any text (GoString s) = stringAny (wire_string s)"
| "wire_any text (GoMap kvs) =
     objectLazyAny (text (GoMap kvs)) (map (\<lambda>(k, v). (wire_string k, wire_any text v)) kvs)"
| "wire_any text (GoSlice vs) = arrayLazyAny (text (GoSlice vs)) (map (wire_any text) vs)"

text \<open>
  The reader counts the objects and arrays it is inside of and reports an error beyond
  \<^verbatim>\<open>maxDepth = 10000\<close>. What \<^verbatim>\<open>jsoniter.Get\<close> returns then is not modelled: \<open>wire text v\<close>
  is \<open>None\<close> for a value nested deeper than that, and the \<^verbatim>\<open>Any\<close> described above otherwise.
\<close>

fun depth :: "gvalue \<Rightarrow> nat" where
  "depth (GoInt i) = 0"
| "depth (GoBool b) = 0"
| "depth (GoString s) = 0"
| "depth (GoMap kvs) = Suc (foldr (\<lambda>kv m. max (depth (snd kv)) m) kvs 0)"
| "depth (GoSlice vs) = Suc (foldr (\<lambda>v m. max (depth v) m) vs 0)"

definition maxDepth :: nat where
  "maxDepth = 10000"

definition wire :: "(gvalue \<Rightarrow> string) \<Rightarrow> gvalue \<Rightarrow> Any option" where
  "wire text v = (if depth v \<le> maxDepth then Some (wire_any text v) else None)"


section \<open>Decimal text, as the spec words it\<close>

text \<open>
  The spec speaks of the base-10 text of an integer, sign included, and of the 32-bit signed
  range. These definitions say what that means without reference to strconv: a text is
  decimal when it is a non-empty run of digits, optionally after one sign, and it denotes the
  number its digits spell. They are what strconv's functions are compared with.
\<close>

definition spec_decimal_value :: "string \<Rightarrow> nat" where
  "spec_decimal_value ds = foldl (\<lambda>n c. n * 10 + digit_val c) 0 ds"

definition spec_decimal_text :: "string \<Rightarrow> bool" where
  "spec_decimal_text ds \<longleftrightarrow> ds \<noteq> [] \<and> list_all is_digit ds"

definition spec_int_text :: "string \<Rightarrow> bool" where
  "spec_int_text s \<longleftrightarrow>
     (case s of
        [] \<Rightarrow> False
      | c # cs \<Rightarrow> if c = CHR ''+'' \<or> c = CHR ''-'' then spec_decimal_text cs
                  else spec_decimal_text s)"

definition spec_int_value :: "string \<Rightarrow> int" where
  "spec_int_value s =
     (case s of
        [] \<Rightarrow> 0
      | c # cs \<Rightarrow> if c = CHR ''-'' then - int (spec_decimal_value cs)
                  else if c = CHR ''+'' then int (spec_decimal_value cs)
                  else int (spec_decimal_value s))"

definition in_int32 :: "int \<Rightarrow> bool" where
  "in_int32 i \<longleftrightarrow> - (2 ^ 31) \<le> i \<and> i < 2 ^ 31"

text \<open>The sign picked off, and the value of a run of digits continued from \<open>n\<close>.\<close>

definition strip_sign :: "string \<Rightarrow> string" where
  "strip_sign s = (if hd s = CHR ''+'' \<or> hd s = CHR ''-'' then tl s else s)"

abbreviation dec :: "nat \<Rightarrow> string \<Rightarrow> nat" where
  "dec \<equiv> foldl (\<lambda>n c. n * 10 + digit_val c)"

text \<open>
  A float layer in which every number is zero, for running the decoder on inputs without
  floats.
\<close>

definition zero_floats :: floats where
  "zero_floats = \<lparr>FormatFloat = (\<lambda>_. ''0''), ParseFloat = (\<lambda>_. Inr 0), ReadFloat64 = (\<lambda>_. 0)\<rparr>"

text \<open>
  The encoder does not emit the name of a Module, and a string goes through \<open>wire_string\<close>.
  \<open>received e\<close> is what is left of \<open>e\<close> on the wire: \<open>e\<close> with the name of every Module
  replaced by the empty text and every other string by what is read back for it.
\<close>

fun received_ID :: "ID \<Rightarrow> ID" where
  "received_ID (ID v) = ID (wire_string v)"

fun received :: "Expression \<Rightarrow> Expression"
  and received_Definition :: "Definition \<Rightarrow> Definition"
  and received_Lambda :: "Lambda \<Rightarrow> Lambda"
  and received_Call :: "Call \<Rightarrow> Call"
  and received_AnonymousCall :: "AnonymousCall \<Rightarrow> AnonymousCall"
  and received_Module :: "Module \<Rightarrow> Module"
where
  "received (EModule m) = EModule (received_Module m)"
| "received ENil = ENil"
| "received (EBoolean b) = EBoolean b"
| "received (EInt32 i) = EInt32 i"
| "received (EFloat64 f) = EFloat64 f"
| "received (EString s) = EString (wire_string s)"
| "received (EID i) = EID (received_ID i)"
| "received (EDefinition d) = EDefinition (received_Definition d)"
| "received (ELambda l) = ELambda (received_Lambda l)"
| "received (ECall c) = ECall (received_Call c)"
| "received (EAnonymousCall c) = EAnonymousCall (received_AnonymousCall c)"
| "received_Definition (Definition i e) = Definition (received_ID i) (received e)"
| "received_Lambda (Lambda ps e) = Lambda (map received_ID ps) (received e)"
| "received_Call (Call i as) = Call (received_ID i) (map received as)"
| "received_AnonymousCall (AnonymousCall l as) =
     AnonymousCall (received_Lambda l) (map received as)"
| "received_Module (Module name ds) = Module '''' (map received_Definition ds)"

section \<open>Sample inputs\<close>

text \<open>
  Inputs for the examples below, as \<^verbatim>\<open>jsoniter.Get\<close> yields them on the JSON text that is the
  first argument of each object and array. There is one well-formed input for each of the
  eleven variants; an Int32 whose text is not a number and a Definition of it; an object
  with the tag 0 and one without a tag; and two Modules that hold the malformed Definition.
\<close>

definition sample_Nil :: Any where
  \<open>sample_Nil = objectLazyAny ''{"type":2}'' [(''type'', numberLazyAny ''2'')]\<close>

definition sample_Boolean :: Any where
  \<open>sample_Boolean =
     objectLazyAny ''{"type":3,"value":true}''
       [(''type'', numberLazyAny ''3''), (''value'', trueAny)]\<close>

definition sample_Int32 :: Any where
  \<open>sample_Int32 =
     objectLazyAny ''{"type":4,"value":"-42"}''
       [(''type'', numberLazyAny ''4''), (''value'', stringAny ''-42'')]\<close>

definition sample_Float64 :: Any where
  \<open>sample_Float64 =
     objectLazyAny ''{"type":5,"value":"0"}''
       [(''type'', numberLazyAny ''5''), (''value'', stringAny ''0'')]\<close>

definition sample_String :: Any where
  \<open>sample_String =
     objectLazyAny ''{"type":6,"value":"s"}''
       [(''type'', numberLazyAny ''6''), (''value'', stringAny ''s'')]\<close>

definition sample_ID :: Any where
  \<open>sample_ID =
     objectLazyAny ''{"type":7,"value":"a"}''
       [(''type'', numberLazyAny ''7''), (''value'', stringAny ''a'')]\<close>

definition sound_Definition :: Any where
  \<open>sound_Definition =
     objectLazyAny
       (''{"type":8,"id":'' @ ToString sample_ID @ '',"expression":'' @
          ToString sample_Int32 @ ''}'')
       [(''type'', numberLazyAny ''8''), (''id'', sample_ID), (''expression'', sample_Int32)]\<close>

definition sample_Lambda :: Any where
  \<open>sample_Lambda =
     objectLazyAny
       (''{"type":9,"parameters":['' @ ToString sample_ID @ ''],"expression":'' @
          ToString sample_ID @ ''}'')
       [(''type'', numberLazyAny ''9''),
        (''parameters'', arrayLazyAny (''['' @ ToString sample_ID @ '']'') [sample_ID]),
        (''expression'', sample_ID)]\<close>

definition sample_Call :: Any where
  \<open>sample_Call =
     objectLazyAny
       (''{"type":10,"id":'' @ ToString sample_ID @ '',"arguments":['' @
          ToString sample_Nil @ '']}'')
       [(''type'', numberLazyAny ''10''), (''id'', sample_ID),
        (''arguments'', arrayLazyAny (''['' @ ToString sample_Nil @ '']'') [sample_Nil])]\<close>

definition sample_AnonymousCall :: Any where
  \<open>sample_AnonymousCall =
     objectLazyAny
       (''{"type":11,"lambda":'' @ ToString sample_Lambda @ '',"arguments":['' @
          ToString sample_String @ '']}'')
       [(''type'', numberLazyAny ''11''), (''lambda'', sample_Lambda),
        (''arguments'', arrayLazyAny (''['' @ ToString sample_String @ '']'') [sample_String])]\<close>

definition sample_Module :: Any where
  \<open>sample_Module =
     objectLazyAny
       (''{"type":1,"definitions":['' @ ToString sound_Definition @ '']}'')
       [(''type'', numberLazyAny ''1''),
        (''definitions'',
           arrayLazyAny (''['' @ ToString sound_Definition @ '']'') [sound_Definition])]\<close>

definition malformed_Int32 :: Any where
  \<open>malformed_Int32 =
     objectLazyAny ''{"type":4,"value":"x"}''
       [(''type'', numberLazyAny ''4''), (''value'', stringAny ''x'')]\<close>

definition malformed_Definition :: Any where
  \<open>malformed_Definition =
     objectLazyAny
       (''{"type":8,"id":'' @ ToString sample_ID @ '',"expression":'' @
          ToString malformed_Int32 @ ''}'')
       [(''type'', numberLazyAny ''8''), (''id'', sample_ID),
        (''expression'', malformed_Int32)]\<close>

definition tag_zero :: Any where
  \<open>tag_zero = objectLazyAny ''{"type":0}'' [(''type'', numberLazyAny ''0'')]\<close>

definition untagged :: Any where
  \<open>untagged = objectLazyAny ''{"value":true}'' [(''value'', trueAny)]\<close>

definition Module_sound_malformed :: Any where
  \<open>Module_sound_malformed =
     objectLazyAny
       (''{"type":1,"definitions":['' @ ToString sound_Definition @ '','' @
          ToString malformed_Definition @ '']}'')
       [(''type'', numberLazyAny ''1''),
        (''definitions'',
           arrayLazyAny
             (''['' @ ToString sound_Definition @ '','' @ ToString malformed_Definition @ '']'')
             [sound_Definition, malformed_Definition])]\<close>

definition Module_zero_malformed :: Any where
  \<open>Module_zero_malformed =
     objectLazyAny
       (''{"type":1,"definitions":['' @ ToString tag_zero @ '','' @
          ToString malformed_Definition @ '']}'')
       [(''type'', numberLazyAny ''1''),
        (''definitions'',
           arrayLazyAny
             (''['' @ ToString tag_zero @ '','' @ ToString malformed_Definition @ '']'')
             [tag_zero, malformed_Definition])]\<close>

lemmas sample_defs =
  sample_Nil_def sample_Boolean_def sample_Int32_def sample_Float64_def sample_String_def
  sample_ID_def sound_Definition_def sample_Lambda_def sample_Call_def
  sample_AnonymousCall_def sample_Module_def malformed_Int32_def malformed_Definition_def
  tag_zero_def untagged_def Module_sound_malformed_def Module_zero_malformed_def

section \<open>Evaluation rules\<close>

lemmas decoder_simps =
  NewExpressionFromJSON.simps NewModuleFromJSON.simps NewDefinitionFromJSON.simps
  NewLambdaFromJSON.simps NewCallFromJSON.simps NewAnonymousCallFromJSON.simps
  NewNilFromJSON_def NewBooleanFromJSON_def NewInt32FromJSON_def NewFloat64FromJSON_def
  NewStringFromJSON_def NewIDFromJSON_def

lemmas number_defs =
  stringAny_ToUint64_def ParseUint_def ParseInt_def is_digit_def digit_val_def digit_char_def
  maxUint64_def uint64SafeToMultiple10_def FormatInt_def

lemma formatBits_digit [simp]: "n < 10 \<Longrightarrow> formatBits n = [digit_char n]"
  by (simp add: formatBits.simps)

lemma readUint64_tag [simp]:
  "readUint64 (FormatInt (int TypeModule)) = TypeModule"
  "readUint64 (FormatInt (int TypeNil)) = TypeNil"
  "readUint64 (FormatInt (int TypeBoolean)) = TypeBoolean"
  "readUint64 (FormatInt (int TypeInt32)) = TypeInt32"
  "readUint64 (FormatInt (int TypeFloat64)) = TypeFloat64"
  "readUint64 (FormatInt (int TypeString)) = TypeString"
  "readUint64 (FormatInt (int TypeID)) = TypeID"
  "readUint64 (FormatInt (int TypeDefinition)) = TypeDefinition"
  "readUint64 (FormatInt (int TypeLambda)) = TypeLambda"
  "readUint64 (FormatInt (int TypeCall)) = TypeCall"
  "readUint64 (FormatInt (int TypeAnonymousCall)) = TypeAnonymousCall"
  by (simp_all add: Type_defs number_defs formatBits.simps [of 10] formatBits.simps [of 11])

lemma readUint64_tag_numeral [simp]:
  "readUint64 (FormatInt 1) = 1"
  "readUint64 (FormatInt 2) = 2"
  "readUint64 (FormatInt 3) = 3"
  "readUint64 (FormatInt 4) = 4"
  "readUint64 (FormatInt 5) = 5"
  "readUint64 (FormatInt 6) = 6"
  "readUint64 (FormatInt 7) = 7"
  "readUint64 (FormatInt 8) = 8"
  "readUint64 (FormatInt 9) = 9"
  "readUint64 (FormatInt 10) = 10"
  "readUint64 (FormatInt 11) = 11"
  using readUint64_tag by (simp_all add: Type_defs)

text \<open>Strings of ASCII bytes are read back unchanged; so are the keys and the decimal texts.\<close>

lemma wire_string_ascii: "list_all (in_bytes 0 0x7F) s \<Longrightarrow> wire_string s = s"
  unfolding wire_string_def by (induction s) (simp_all add: rune_size_def)

lemma wire_string_key [simp]:
  "wire_string ''type'' = ''type''"
  "wire_string ''value'' = ''value''"
  "wire_string ''id'' = ''id''"
  "wire_string ''expression'' = ''expression''"
  "wire_string ''parameters'' = ''parameters''"
  "wire_string ''arguments'' = ''arguments''"
  "wire_string ''lambda'' = ''lambda''"
  "wire_string ''definitions'' = ''definitions''"
  by (simp_all add: wire_string_ascii in_bytes_def)

section \<open>The encoder's field layout\<close>

text \<open>
  Claim C2. The spec has \<^verbatim>\<open>Module.JSON\<close> emit a \<^verbatim>\<open>"name"\<close> field with the module's name
  beside \<^verbatim>\<open>"type"\<close> and \<^verbatim>\<open>"definitions"\<close>. The method builds a map with exactly the two
  keys \<^verbatim>\<open>"type"\<close> and \<^verbatim>\<open>"definitions"\<close>: the name is not emitted.
\<close>

theorem Module_JSON_has_no_name:
  "Module_JSON fl (Module name ds) =
     GoMap [(''type'', GoInt 1), (''definitions'', GoSlice (map (Definition_JSON fl) ds))]"
  by (simp add: Type_defs)

text \<open>
  Claim C1. Decoding the encoding of the test suite's own module
  \<^verbatim>\<open>&Module{Name: "test", Definitions: nil}\<close> succeeds and yields a module, but one whose
  name is empty: the encoder did not emit the name, and the decoder reads the missing field
  as the empty text.
\<close>

theorem roundtrip_Module_loses_name:
  "map_option (NewExpressionFromJSON fl) (wire text (JSON fl (EModule (Module ''test'' [])))) =
     Some (Inr (EModule (Module '''' [])))"
  by (simp add: wire_def maxDepth_def decoder_simps Let_def)

section \<open>Tags\<close>

text \<open>
  Claim C10. Whenever the \<^verbatim>\<open>"type"\<close> field of the input reads as the tag of Nil,
  \<open>NewNilFromJSON\<close> succeeds and returns the Nil value, whatever else the input holds.
\<close>

theorem NewNilFromJSON_tag_only:
  "ToUint (Get ''type'' json) = TypeNil \<Longrightarrow> NewNilFromJSON json = Inr ()"
  by (simp add: NewNilFromJSON_def)

theorem NewNilFromJSON_tag_only_witness:
  \<open>ToUint (Get ''type''
      (objectLazyAny ''{"type":2,"value":"x","id":[]}''
         [(''type'', numberLazyAny ''2''), (''value'', stringAny ''x''),
          (''id'', arrayLazyAny ''[]'' [])])) = TypeNil
   \<and> NewNilFromJSON
      (objectLazyAny ''{"type":2,"value":"x","id":[]}''
         [(''type'', numberLazyAny ''2''), (''value'', stringAny ''x''),
          (''id'', arrayLazyAny ''[]'' [])]) = Inr ()\<close>
proof -
  have tag: \<open>ToUint (Get ''type''
      (objectLazyAny ''{"type":2,"value":"x","id":[]}''
         [(''type'', numberLazyAny ''2''), (''value'', stringAny ''x''),
          (''id'', arrayLazyAny ''[]'' [])])) = TypeNil\<close>
    by (simp add: Type_defs number_defs)
  from tag NewNilFromJSON_tag_only [OF tag] show ?thesis by simp
qed

text \<open>
  Claim C4, as amended. Each of the eleven constructors tests the tag first, on what
  \<^verbatim>\<open>json.Get("type").ToUint()\<close> reads: when that reading is not the constructor's own tag,
  the constructor returns \<^verbatim>\<open>ErrInvalidJSON\<close> and no value, whoever calls it.
\<close>

theorem constructor_rejects_foreign_tag:
  "(ToUint (Get ''type'' json) \<noteq> TypeModule \<longrightarrow> NewModuleFromJSON fl json = Inl ErrInvalidJSON)
   \<and> (ToUint (Get ''type'' json) \<noteq> TypeNil \<longrightarrow> NewNilFromJSON json = Inl ErrInvalidJSON)
   \<and> (ToUint (Get ''type'' json) \<noteq> TypeBoolean \<longrightarrow>
        NewBooleanFromJSON fl json = Inl ErrInvalidJSON)
   \<and> (ToUint (Get ''type'' json) \<noteq> TypeInt32 \<longrightarrow> NewInt32FromJSON json = Inl ErrInvalidJSON)
   \<and> (ToUint (Get ''type'' json) \<noteq> TypeFloat64 \<longrightarrow>
        NewFloat64FromJSON fl json = Inl ErrInvalidJSON)
   \<and> (ToUint (Get ''type'' json) \<noteq> TypeString \<longrightarrow> NewStringFromJSON json = Inl ErrInvalidJSON)
   \<and> (ToUint (Get ''type'' json) \<noteq> TypeID \<longrightarrow> NewIDFromJSON json = Inl ErrInvalidJSON)
   \<and> (ToUint (Get ''type'' json) \<noteq> TypeDefinition \<longrightarrow>
        NewDefinitionFromJSON fl json = Inl ErrInvalidJSON)
   \<and> (ToUint (Get ''type'' json) \<noteq> TypeLambda \<longrightarrow>
        NewLambdaFromJSON fl json = Inl ErrInvalidJSON)
   \<and> (ToUint (Get ''type'' json) \<noteq> TypeCall \<longrightarrow> NewCallFromJSON fl json = Inl ErrInvalidJSON)
   \<and> (ToUint (Get ''type'' json) \<noteq> TypeAnonymousCall \<longrightarrow>
        NewAnonymousCallFromJSON fl json = Inl ErrInvalidJSON)"
  by (simp add: decoder_simps)

theorem constructor_rejects_foreign_tag_witness:
  \<open>ToUint (Get ''type''
      (objectLazyAny ''{"type":12,"value":true}''
         [(''type'', numberLazyAny ''12''), (''value'', trueAny)])) = 12
   \<and> NewModuleFromJSON zero_floats
        (objectLazyAny ''{"type":12,"value":true}''
           [(''type'', numberLazyAny ''12''), (''value'', trueAny)]) = Inl ErrInvalidJSON
   \<and> NewNilFromJSON
        (objectLazyAny ''{"type":12,"value":true}''
           [(''type'', numberLazyAny ''12''), (''value'', trueAny)]) = Inl ErrInvalidJSON
   \<and> NewBooleanFromJSON zero_floats
        (objectLazyAny ''{"type":12,"value":true}''
           [(''type'', numberLazyAny ''12''), (''value'', trueAny)]) = Inl ErrInvalidJSON
   \<and> NewInt32FromJSON
        (objectLazyAny ''{"type":12,"value":true}''
           [(''type'', numberLazyAny ''12''), (''value'', trueAny)]) = Inl ErrInvalidJSON
   \<and> NewFloat64FromJSON zero_floats
        (objectLazyAny ''{"type":12,"value":true}''
           [(''type'', numberLazyAny ''12''), (''value'', trueAny)]) = Inl ErrInvalidJSON
   \<and> NewStringFromJSON
        (objectLazyAny ''{"type":12,"value":true}''
           [(''type'', numberLazyAny ''12''), (''value'', trueAny)]) = Inl ErrInvalidJSON
   \<and> NewIDFromJSON
        (objectLazyAny ''{"type":12,"value":true}''
           [(''type'', numberLazyAny ''12''), (''value'', trueAny)]) = Inl ErrInvalidJSON
   \<and> NewDefinitionFromJSON zero_floats
        (objectLazyAny ''{"type":12,"value":true}''
           [(''type'', numberLazyAny ''12''), (''value'', trueAny)]) = Inl ErrInvalidJSON
   \<and> NewLambdaFromJSON zero_floats
        (objectLazyAny ''{"type":12,"value":true}''
           [(''type'', numberLazyAny ''12''), (''value'', trueAny)]) = Inl ErrInvalidJSON
   \<and> NewCallFromJSON zero_floats
        (objectLazyAny ''{"type":12,"value":true}''
           [(''type'', numberLazyAny ''12''), (''value'', trueAny)]) = Inl ErrInvalidJSON
   \<and> NewAnonymousCallFromJSON zero_floats
        (objectLazyAny ''{"type":12,"value":true}''
           [(''type'', numberLazyAny ''12''), (''value'', trueAny)]) = Inl ErrInvalidJSON\<close>
proof -
  have tag: \<open>ToUint (Get ''type''
      (objectLazyAny ''{"type":12,"value":true}''
         [(''type'', numberLazyAny ''12''), (''value'', trueAny)])) = 12\<close>
    by (simp add: number_defs)
  show ?thesis
    using tag
      constructor_rejects_foreign_tag [of
        \<open>objectLazyAny ''{"type":12,"value":true}''
           [(''type'', numberLazyAny ''12''), (''value'', trueAny)]\<close> zero_floats]
    unfolding Type_defs by simp
qed

text \<open>
  The claim as the spec states it is about the \<^verbatim>\<open>"type"\<close> value itself. The string
  \<^verbatim>\<open>"2 apples"\<close> is not the tag of Nil, but it reads as 2, and the constructor of Nil accepts
  the input.
\<close>

theorem Nil_constructor_accepts_text_tag:
  \<open>NewNilFromJSON
     (objectLazyAny ''{"type":"2 apples"}'' [(''type'', stringAny ''2 apples'')]) = Inr ()\<close>
  by (simp add: NewNilFromJSON_def Type_defs number_defs)

text \<open>
  Claim C3, as amended. The dispatcher switches on what \<^verbatim>\<open>json.Get("type").ToUint()\<close> reads.
  Whenever that reading is 0 or greater than 11, the dispatcher returns \<^verbatim>\<open>ErrInvalidJSON\<close>,
  whatever the other fields are. The reading is 0 for a missing field, for \<^verbatim>\<open>null\<close> and
  \<^verbatim>\<open>false\<close>, for an object, for an empty array, for a number whose text starts with a minus
  sign or with the digit 0, and for a string that has no digit right after its optional plus
  sign. Whenever the reading is one of the tags 1 to 11, whatever kind of value the field
  holds, the dispatcher returns what the constructor of that variant returns on the same
  input.
\<close>

theorem dispatcher_switches_on_coerced_tag:
  "(ToUint (Get ''type'' json) = 0 \<or> 11 < ToUint (Get ''type'' json) \<longrightarrow>
      NewExpressionFromJSON fl json = Inl ErrInvalidJSON)
   \<and> ((\<exists>buf kvs. Get ''type'' json = objectLazyAny buf kvs)
        \<or> (\<exists>buf. Get ''type'' json = arrayLazyAny buf [])
        \<or> (\<exists>buf. Get ''type'' json = numberLazyAny (CHR ''-'' # buf))
        \<or> (\<exists>buf. Get ''type'' json = numberLazyAny (CHR ''0'' # buf))
        \<or> (\<exists>val. Get ''type'' json = stringAny val
              \<and> takeWhile is_digit (if val \<noteq> [] \<and> hd val = CHR ''+'' then tl val else val) = [])
        \<or> Get ''type'' json \<in> {invalidAny, nilAny, falseAny}
      \<longrightarrow> ToUint (Get ''type'' json) = 0)
   \<and> (ToUint (Get ''type'' json) = TypeModule \<longrightarrow>
        NewExpressionFromJSON fl json = map_sum id EModule (NewModuleFromJSON fl json))
   \<and> (ToUint (Get ''type'' json) = TypeNil \<longrightarrow>
        NewExpressionFromJSON fl json = map_sum id (\<lambda>_. ENil) (NewNilFromJSON json))
   \<and> (ToUint (Get ''type'' json) = TypeBoolean \<longrightarrow>
        NewExpressionFromJSON fl json = map_sum id EBoolean (NewBooleanFromJSON fl json))
   \<and> (ToUint (Get ''type'' json) = TypeInt32 \<longrightarrow>
        NewExpressionFromJSON fl json = map_sum id EInt32 (NewInt32FromJSON json))
   \<and> (ToUint (Get ''type'' json) = TypeFloat64 \<longrightarrow>
        NewExpressionFromJSON fl json = map_sum id EFloat64 (NewFloat64FromJSON fl json))
   \<and> (ToUint (Get ''type'' json) = TypeString \<longrightarrow>
        NewExpressionFromJSON fl json = map_sum id EString (NewStringFromJSON json))
   \<and> (ToUint (Get ''type'' json) = TypeID \<longrightarrow>
        NewExpressionFromJSON fl json = map_sum id EID (NewIDFromJSON json))
   \<and> (ToUint (Get ''type'' json) = TypeDefinition \<longrightarrow>
        NewExpressionFromJSON fl json = map_sum id EDefinition (NewDefinitionFromJSON fl json))
   \<and> (ToUint (Get ''type'' json) = TypeLambda \<longrightarrow>
        NewExpressionFromJSON fl json = map_sum id ELambda (NewLambdaFromJSON fl json))
   \<and> (ToUint (Get ''type'' json) = TypeCall \<longrightarrow>
        NewExpressionFromJSON fl json = map_sum id ECall (NewCallFromJSON fl json))
   \<and> (ToUint (Get ''type'' json) = TypeAnonymousCall \<longrightarrow>
        NewExpressionFromJSON fl json =
          map_sum id EAnonymousCall (NewAnonymousCallFromJSON fl json))"
proof -
  have reject: "NewExpressionFromJSON fl json = Inl ErrInvalidJSON"
    if "ToUint (Get ''type'' json) = 0 \<or> 11 < ToUint (Get ''type'' json)"
    using that by (auto simp: NewExpressionFromJSON.simps Let_def Type_defs)
  have zero: "ToUint (Get ''type'' json) = 0"
    if "(\<exists>buf kvs. Get ''type'' json = objectLazyAny buf kvs)
        \<or> (\<exists>buf. Get ''type'' json = arrayLazyAny buf [])
        \<or> (\<exists>buf. Get ''type'' json = numberLazyAny (CHR ''-'' # buf))
        \<or> (\<exists>buf. Get ''type'' json = numberLazyAny (CHR ''0'' # buf))
        \<or> (\<exists>val. Get ''type'' json = stringAny val
              \<and> takeWhile is_digit (if val \<noteq> [] \<and> hd val = CHR ''+'' then tl val else val) = [])
        \<or> Get ''type'' json \<in> {invalidAny, nilAny, falseAny}"
    using that
    by (auto simp: stringAny_ToUint64_def ParseUint_def is_digit_def digit_val_def)
  have dispatch:
    "ToUint (Get ''type'' json) = TypeModule \<Longrightarrow>
       NewExpressionFromJSON fl json = map_sum id EModule (NewModuleFromJSON fl json)"
    "ToUint (Get ''type'' json) = TypeNil \<Longrightarrow>
       NewExpressionFromJSON fl json = map_sum id (\<lambda>_. ENil) (NewNilFromJSON json)"
    "ToUint (Get ''type'' json) = TypeBoolean \<Longrightarrow>
       NewExpressionFromJSON fl json = map_sum id EBoolean (NewBooleanFromJSON fl json)"
    "ToUint (Get ''type'' json) = TypeInt32 \<Longrightarrow>
       NewExpressionFromJSON fl json = map_sum id EInt32 (NewInt32FromJSON json)"
    "ToUint (Get ''type'' json) = TypeFloat64 \<Longrightarrow>
       NewExpressionFromJSON fl json = map_sum id EFloat64 (NewFloat64FromJSON fl json)"
    "ToUint (Get ''type'' json) = TypeString \<Longrightarrow>
       NewExpressionFromJSON fl json = map_sum id EString (NewStringFromJSON json)"
    "ToUint (Get ''type'' json) = TypeID \<Longrightarrow>
       NewExpressionFromJSON fl json = map_sum id EID (NewIDFromJSON json)"
    "ToUint (Get ''type'' json) = TypeDefinition \<Longrightarrow>
       NewExpressionFromJSON fl json = map_sum id EDefinition (NewDefinitionFromJSON fl json)"
    "ToUint (Get ''type'' json) = TypeLambda \<Longrightarrow>
       NewExpressionFromJSON fl json = map_sum id ELambda (NewLambdaFromJSON fl json)"
    "ToUint (Get ''type'' json) = TypeCall \<Longrightarrow>
       NewExpressionFromJSON fl json = map_sum id ECall (NewCallFromJSON fl json)"
    "ToUint (Get ''type'' json) = TypeAnonymousCall \<Longrightarrow>
       NewExpressionFromJSON fl json =
         map_sum id EAnonymousCall (NewAnonymousCallFromJSON fl json)"
    by (simp_all add: NewExpressionFromJSON.simps Let_def Type_defs)
  from reject zero dispatch show ?thesis by blast
qed

theorem dispatcher_switches_on_coerced_tag_witness:
  "NewExpressionFromJSON zero_floats tag_zero = Inl ErrInvalidJSON
   \<and> Get ''type'' untagged = invalidAny
   \<and> NewExpressionFromJSON zero_floats untagged = Inl ErrInvalidJSON
   \<and> NewExpressionFromJSON zero_floats sample_Module =
       Inr (EModule (Module '''' [Definition (ID ''a'') (EInt32 (- 42))]))
   \<and> NewExpressionFromJSON zero_floats sample_Nil = Inr ENil
   \<and> NewExpressionFromJSON zero_floats sample_Boolean = Inr (EBoolean True)
   \<and> NewExpressionFromJSON zero_floats sample_Int32 = Inr (EInt32 (- 42))
   \<and> NewExpressionFromJSON zero_floats sample_Float64 = Inr (EFloat64 0)
   \<and> NewExpressionFromJSON zero_floats sample_String = Inr (EString ''s'')
   \<and> NewExpressionFromJSON zero_floats sample_ID = Inr (EID (ID ''a''))
   \<and> NewExpressionFromJSON zero_floats sound_Definition =
       Inr (EDefinition (Definition (ID ''a'') (EInt32 (- 42))))
   \<and> NewExpressionFromJSON zero_floats sample_Lambda =
       Inr (ELambda (Lambda [ID ''a''] (EID (ID ''a''))))
   \<and> NewExpressionFromJSON zero_floats sample_Call =
       Inr (ECall (Call (ID ''a'') [ENil]))
   \<and> NewExpressionFromJSON zero_floats sample_AnonymousCall =
       Inr (EAnonymousCall
             (AnonymousCall (Lambda [ID ''a''] (EID (ID ''a''))) [EString ''s'']))"
proof -
  have tags:
    "ToUint (Get ''type'' tag_zero) = 0"
    "Get ''type'' untagged = invalidAny"
    "ToUint (Get ''type'' sample_Module) = TypeModule"
    "ToUint (Get ''type'' sample_Nil) = TypeNil"
    "ToUint (Get ''type'' sample_Boolean) = TypeBoolean"
    "ToUint (Get ''type'' sample_Int32) = TypeInt32"
    "ToUint (Get ''type'' sample_Float64) = TypeFloat64"
    "ToUint (Get ''type'' sample_String) = TypeString"
    "ToUint (Get ''type'' sample_ID) = TypeID"
    "ToUint (Get ''type'' sound_Definition) = TypeDefinition"
    "ToUint (Get ''type'' sample_Lambda) = TypeLambda"
    "ToUint (Get ''type'' sample_Call) = TypeCall"
    "ToUint (Get ''type'' sample_AnonymousCall) = TypeAnonymousCall"
    by (simp_all add: sample_defs Type_defs number_defs)
  have leaves:
    "NewNilFromJSON sample_Nil = Inr ()"
    "NewBooleanFromJSON zero_floats sample_Boolean = Inr True"
    "NewInt32FromJSON sample_Int32 = Inr (- 42)"
    "NewFloat64FromJSON zero_floats sample_Float64 = Inr 0"
    "NewStringFromJSON sample_String = Inr ''s''"
    "NewIDFromJSON sample_ID = Inr (ID ''a'')"
    by (simp_all add: sample_defs decoder_simps zero_floats_def Type_defs number_defs)
  have nodes:
    "NewDefinitionFromJSON zero_floats sound_Definition =
       Inr (Definition (ID ''a'') (EInt32 (- 42)))"
    "NewLambdaFromJSON zero_floats sample_Lambda = Inr (Lambda [ID ''a''] (EID (ID ''a'')))"
    "NewCallFromJSON zero_floats sample_Call = Inr (Call (ID ''a'') [ENil])"
    by (simp_all add: sample_defs decoder_simps Let_def Type_defs number_defs)
  have more:
    "NewAnonymousCallFromJSON zero_floats sample_AnonymousCall =
       Inr (AnonymousCall (Lambda [ID ''a''] (EID (ID ''a''))) [EString ''s''])"
    "NewModuleFromJSON zero_floats sample_Module =
       Inr (Module '''' [Definition (ID ''a'') (EInt32 (- 42))])"
    by (simp_all add: sample_defs decoder_simps Let_def Type_defs number_defs)
  show ?thesis
    using tags leaves nodes more
      dispatcher_switches_on_coerced_tag [of tag_zero zero_floats]
      dispatcher_switches_on_coerced_tag [of untagged zero_floats]
      dispatcher_switches_on_coerced_tag [of sample_Module zero_floats]
      dispatcher_switches_on_coerced_tag [of sample_Nil zero_floats]
      dispatcher_switches_on_coerced_tag [of sample_Boolean zero_floats]
      dispatcher_switches_on_coerced_tag [of sample_Int32 zero_floats]
      dispatcher_switches_on_coerced_tag [of sample_Float64 zero_floats]
      dispatcher_switches_on_coerced_tag [of sample_String zero_floats]
      dispatcher_switches_on_coerced_tag [of sample_ID zero_floats]
      dispatcher_switches_on_coerced_tag [of sound_Definition zero_floats]
      dispatcher_switches_on_coerced_tag [of sample_Lambda zero_floats]
      dispatcher_switches_on_coerced_tag [of sample_Call zero_floats]
      dispatcher_switches_on_coerced_tag [of sample_AnonymousCall zero_floats]
    by (simp add: Type_defs)
qed

text \<open>
  The claim as the spec states it also has every non-numeric tag rejected. A tag given as the
  string \<^verbatim>\<open>"2"\<close> is read as 2 by the accessor, and the input decodes to Nil.
\<close>

theorem dispatcher_accepts_string_tag:
  \<open>NewExpressionFromJSON zero_floats
     (objectLazyAny ''{"type":"2"}'' [(''type'', stringAny ''2'')]) = Inr ENil\<close>
  by (simp add: decoder_simps Let_def Type_defs number_defs)

section \<open>Absent and empty fields\<close>

text \<open>
  Claim C9, as amended. With the right tag and the scalar field absent, the constructors of
  Boolean, String and ID succeed with \<open>False\<close> and the empty text. The constructor of Module
  reads an absent name as the empty text. When its \<^verbatim>\<open>"definitions"\<close> field is an array whose
  elements all decode, it succeeds with the empty name and the decoded definitions; when the
  first element that does not decode returns an error, it returns that error.
\<close>

theorem absent_scalar_is_zero_value:
  "(ToUint (Get ''type'' json) = TypeBoolean \<and> Get ''value'' json = invalidAny \<longrightarrow>
      NewBooleanFromJSON fl json = Inr False)
   \<and> (ToUint (Get ''type'' json) = TypeString \<and> Get ''value'' json = invalidAny \<longrightarrow>
      NewStringFromJSON json = Inr '''')
   \<and> (ToUint (Get ''type'' json) = TypeID \<and> Get ''value'' json = invalidAny \<longrightarrow>
      NewIDFromJSON json = Inr (ID ''''))
   \<and> (ToUint (Get ''type'' json) = TypeModule \<and> Get ''name'' json = invalidAny
        \<and> Get ''definitions'' json = arrayLazyAny buf elems
        \<and> decode_each (NewDefinitionFromJSON fl) elems = Inr definitions \<longrightarrow>
      NewModuleFromJSON fl json = Inr (Module '''' definitions))
   \<and> (ToUint (Get ''type'' json) = TypeModule \<and> Get ''name'' json = invalidAny
        \<and> Get ''definitions'' json = arrayLazyAny buf elems
        \<and> decode_each (NewDefinitionFromJSON fl) elems = Inl err \<and> returned err \<longrightarrow>
      NewModuleFromJSON fl json = Inl err)"
  by (simp add: decoder_simps)

theorem absent_scalar_is_zero_value_witness:
  \<open>NewBooleanFromJSON zero_floats
     (objectLazyAny ''{"type":3}'' [(''type'', numberLazyAny ''3'')]) = Inr False
   \<and> NewStringFromJSON
     (objectLazyAny ''{"type":6}'' [(''type'', numberLazyAny ''6'')]) = Inr ''''
   \<and> NewIDFromJSON
     (objectLazyAny ''{"type":7}'' [(''type'', numberLazyAny ''7'')]) = Inr (ID '''')
   \<and> Get ''name'' sample_Module = invalidAny
   \<and> NewModuleFromJSON zero_floats sample_Module =
       Inr (Module '''' [Definition (ID ''a'') (EInt32 (- 42))])
   \<and> Get ''name'' Module_sound_malformed = invalidAny
   \<and> returned (NumError ''ParseInt'' ''x'' ErrSyntax)
   \<and> NewModuleFromJSON zero_floats Module_sound_malformed =
       Inl (NumError ''ParseInt'' ''x'' ErrSyntax)\<close>
proof -
  have tags:
    \<open>ToUint (Get ''type'' (objectLazyAny ''{"type":3}'' [(''type'', numberLazyAny ''3'')])) =
       TypeBoolean\<close>
    \<open>ToUint (Get ''type'' (objectLazyAny ''{"type":6}'' [(''type'', numberLazyAny ''6'')])) =
       TypeString\<close>
    \<open>ToUint (Get ''type'' (objectLazyAny ''{"type":7}'' [(''type'', numberLazyAny ''7'')])) =
       TypeID\<close>
    by (simp_all add: Type_defs number_defs)
  have sound:
    "ToUint (Get ''type'' sample_Module) = TypeModule"
    "Get ''name'' sample_Module = invalidAny"
    "Get ''definitions'' sample_Module =
       arrayLazyAny (''['' @ ToString sound_Definition @ '']'') [sound_Definition]"
    "decode_each (NewDefinitionFromJSON zero_floats) [sound_Definition] =
       Inr [Definition (ID ''a'') (EInt32 (- 42))]"
    by (simp_all add: sample_defs decoder_simps Let_def Type_defs number_defs)
  have malformed:
    "ToUint (Get ''type'' Module_sound_malformed) = TypeModule"
    "Get ''name'' Module_sound_malformed = invalidAny"
    "Get ''definitions'' Module_sound_malformed =
       arrayLazyAny
         (''['' @ ToString sound_Definition @ '','' @ ToString malformed_Definition @ '']'')
         [sound_Definition, malformed_Definition]"
    "decode_each (NewDefinitionFromJSON zero_floats) [sound_Definition, malformed_Definition] =
       Inl (NumError ''ParseInt'' ''x'' ErrSyntax)"
    "returned (NumError ''ParseInt'' ''x'' ErrSyntax)"
    by (simp_all add: sample_defs decoder_simps Let_def Type_defs number_defs)
  show ?thesis
    using tags sound malformed
      absent_scalar_is_zero_value [of
        \<open>objectLazyAny ''{"type":3}'' [(''type'', numberLazyAny ''3'')]\<close> zero_floats]
      absent_scalar_is_zero_value [of
        \<open>objectLazyAny ''{"type":6}'' [(''type'', numberLazyAny ''6'')]\<close>]
      absent_scalar_is_zero_value [of
        \<open>objectLazyAny ''{"type":7}'' [(''type'', numberLazyAny ''7'')]\<close>]
      absent_scalar_is_zero_value [where json = sample_Module and fl = zero_floats
        and buf = "''['' @ ToString sound_Definition @ '']''" and elems = "[sound_Definition]"
        and definitions = "[Definition (ID ''a'') (EInt32 (- 42))]"]
      absent_scalar_is_zero_value [where json = Module_sound_malformed and fl = zero_floats
        and buf = "''['' @ ToString sound_Definition @ '','' @ ToString malformed_Definition @ '']''"
        and elems = "[sound_Definition, malformed_Definition]"
        and err = "NumError ''ParseInt'' ''x'' ErrSyntax"]
    by simp
qed

text \<open>
  The claim as the spec states it has the Module constructor succeed whenever the tag is
  right and the name is absent. A module without a name whose only definition carries the
  tag 0 is rejected.
\<close>

theorem nameless_Module_can_fail:
  \<open>NewModuleFromJSON zero_floats
     (objectLazyAny ''{"type":1,"definitions":[{"type":0}]}''
        [(''type'', numberLazyAny ''1''),
         (''definitions'',
            arrayLazyAny ''[{"type":0}]''
              [objectLazyAny ''{"type":0}'' [(''type'', numberLazyAny ''0'')]])]) =
     Inl ErrInvalidJSON\<close>
  by (simp add: decoder_simps Type_defs number_defs)

text \<open>
  Claim C8. The spec has a Module whose \<^verbatim>\<open>"definitions"\<close> field is absent decode to a Module
  with no definitions. On the input \<^verbatim>\<open>{"type":1,"name":"m"}\<close> the constructor does not
  return: \<^verbatim>\<open>json.Get("definitions")\<close> is the invalid value, whose \<^verbatim>\<open>ToVal\<close> panics.
\<close>

theorem absent_definitions_panics:
  \<open>NewModuleFromJSON zero_floats
     (objectLazyAny ''{"type":1,"name":"m"}''
        [(''type'', numberLazyAny ''1''), (''name'', stringAny ''m'')]) =
     Inl (Panic ''not implemented'')\<close>
  by (simp add: decoder_simps Type_defs number_defs)

text \<open>
  A \<^verbatim>\<open>"definitions"\<close> field that is present and an empty array decodes to a Module without
  definitions.
\<close>

lemma empty_definitions_decode:
  assumes "ToUint (Get ''type'' json) = TypeModule"
    and "Get ''definitions'' json = arrayLazyAny buf []"
  shows "NewModuleFromJSON fl json = Inr (Module (ToString (Get ''name'' json)) [])"
  using assms by (simp add: decoder_simps)

section \<open>Error propagation\<close>

lemma decode_each_first_error:
  "decode_each f pre = Inr ys \<Longrightarrow> f x = Inl err \<Longrightarrow> decode_each f (pre @ x # post) = Inl err"
  by (induction pre arbitrary: ys) (auto split: sum.splits)

text \<open>
  Claim C7, as amended. Let \<open>d\<close> read as a Definition whose id decodes and whose expression
  reads as an Int32 that \<open>NewInt32FromJSON\<close> rejects with the error \<open>err\<close>. Then decoding \<open>d\<close>
  fails with \<open>err\<close>, and so does decoding, by the constructor or by the dispatcher, every
  Module that holds \<open>d\<close> among its definitions after definitions that all decode. No value is
  returned beside the error. In general, a Module whose definitions decode up to an element
  that returns an error fails with the error of that element, whatever follows it.
\<close>

theorem malformed_Int32_propagates:
  assumes "ToUint (Get ''type'' d) = TypeDefinition"
    and "NewIDFromJSON (Get ''id'' d) = Inr i"
    and "ToUint (Get ''type'' (Get ''expression'' d)) = TypeInt32"
    and "NewInt32FromJSON (Get ''expression'' d) = Inl err"
  shows "NewDefinitionFromJSON fl d = Inl err
    \<and> (ToUint (Get ''type'' m) = TypeModule
         \<and> Get ''definitions'' m = arrayLazyAny buf (pre @ d # post)
         \<and> decode_each (NewDefinitionFromJSON fl) pre = Inr ds
       \<longrightarrow> NewModuleFromJSON fl m = Inl err \<and> NewExpressionFromJSON fl m = Inl err)
    \<and> (ToUint (Get ''type'' m') = TypeModule
         \<and> Get ''definitions'' m' = arrayLazyAny buf' (pre' @ x # post')
         \<and> decode_each (NewDefinitionFromJSON fl) pre' = Inr ds'
         \<and> NewDefinitionFromJSON fl x = Inl err' \<and> returned err'
       \<longrightarrow> NewModuleFromJSON fl m' = Inl err' \<and> NewExpressionFromJSON fl m' = Inl err')"
proof -
  have first: "NewModuleFromJSON fl n = Inl e \<and> NewExpressionFromJSON fl n = Inl e"
    if n: "ToUint (Get ''type'' n) = TypeModule"
      "Get ''definitions'' n = arrayLazyAny b (xs @ y # zs)"
      "decode_each (NewDefinitionFromJSON fl) xs = Inr ys"
      "NewDefinitionFromJSON fl y = Inl e"
    for n b xs y zs ys e
  proof -
    have "decode_each (NewDefinitionFromJSON fl) (xs @ y # zs) = Inl e"
      using n(3,4) by (rule decode_each_first_error)
    then have "NewModuleFromJSON fl n = Inl e"
      using n(1,2) by (simp add: NewModuleFromJSON.simps)
    then show ?thesis
      using n(1) by (simp add: NewExpressionFromJSON.simps Let_def)
  qed
  have "NewExpressionFromJSON fl (Get ''expression'' d) = Inl err"
    using assms(3,4) by (simp add: NewExpressionFromJSON.simps Let_def Type_defs)
  then have d: "NewDefinitionFromJSON fl d = Inl err"
    using assms(1,2) by (simp add: NewDefinitionFromJSON.simps)
  from d first [of m buf pre d post ds err] first [of m' buf' pre' x post' ds' err']
  show ?thesis by blast
qed

theorem malformed_Int32_propagates_witness:
  "NewDefinitionFromJSON zero_floats malformed_Definition =
     Inl (NumError ''ParseInt'' ''x'' ErrSyntax)
   \<and> NewModuleFromJSON zero_floats Module_sound_malformed =
     Inl (NumError ''ParseInt'' ''x'' ErrSyntax)
   \<and> NewExpressionFromJSON zero_floats Module_sound_malformed =
     Inl (NumError ''ParseInt'' ''x'' ErrSyntax)
   \<and> NewDefinitionFromJSON zero_floats tag_zero = Inl ErrInvalidJSON
   \<and> returned ErrInvalidJSON
   \<and> NewModuleFromJSON zero_floats Module_zero_malformed = Inl ErrInvalidJSON
   \<and> NewExpressionFromJSON zero_floats Module_zero_malformed = Inl ErrInvalidJSON"
proof -
  have d: "ToUint (Get ''type'' malformed_Definition) = TypeDefinition"
    "NewIDFromJSON (Get ''id'' malformed_Definition) = Inr (ID ''a'')"
    "ToUint (Get ''type'' (Get ''expression'' malformed_Definition)) = TypeInt32"
    "NewInt32FromJSON (Get ''expression'' malformed_Definition) =
       Inl (NumError ''ParseInt'' ''x'' ErrSyntax)"
    by (simp_all add: sample_defs decoder_simps Type_defs number_defs)
  have m: "ToUint (Get ''type'' Module_sound_malformed) = TypeModule"
    "Get ''definitions'' Module_sound_malformed =
       arrayLazyAny
         (''['' @ ToString sound_Definition @ '','' @ ToString malformed_Definition @ '']'')
         ([sound_Definition] @ malformed_Definition # [])"
    "decode_each (NewDefinitionFromJSON zero_floats) [sound_Definition] =
       Inr [Definition (ID ''a'') (EInt32 (- 42))]"
    by (simp_all add: sample_defs decoder_simps Let_def Type_defs number_defs)
  have z: "ToUint (Get ''type'' Module_zero_malformed) = TypeModule"
    "Get ''definitions'' Module_zero_malformed =
       arrayLazyAny
         (''['' @ ToString tag_zero @ '','' @ ToString malformed_Definition @ '']'')
         ([] @ tag_zero # [malformed_Definition])"
    "decode_each (NewDefinitionFromJSON zero_floats) [] = Inr []"
    "NewDefinitionFromJSON zero_floats tag_zero = Inl ErrInvalidJSON"
    "returned ErrInvalidJSON"
    by (simp_all add: sample_defs decoder_simps Let_def Type_defs number_defs)
  show ?thesis
    using m z
      malformed_Int32_propagates [OF d, where fl = zero_floats
        and m = Module_sound_malformed and pre = "[sound_Definition]" and post = "[]"
        and m' = Module_zero_malformed and pre' = "[]" and x = tag_zero
        and post' = "[malformed_Definition]" and err' = ErrInvalidJSON]
    by blast
qed

text \<open>
  The claim as the spec states it covers every Module that encloses the Definition. The
  constructor returns the first error of its loop: a Module that holds, before the
  Definition with the malformed Int32, an element with the tag 0 fails with
  \<^verbatim>\<open>ErrInvalidJSON\<close>, not with the parse error of the Int32.
\<close>

theorem earlier_error_wins:
  "NewDefinitionFromJSON zero_floats malformed_Definition =
     Inl (NumError ''ParseInt'' ''x'' ErrSyntax)
   \<and> NewModuleFromJSON zero_floats Module_zero_malformed = Inl ErrInvalidJSON"
  by (simp add: sample_defs decoder_simps Let_def Type_defs number_defs)

section \<open>Int32 as decimal text\<close>

text \<open>The loop of \<^verbatim>\<open>ParseUint\<close> against the value the digits spell.\<close>

lemma dec_mono: "n \<le> dec n cs"
proof (induction cs arbitrary: n)
  case Nil
  show ?case by simp
next
  case (Cons c cs)
  have "n \<le> n * 10 + digit_val c" by simp
  also have "\<dots> \<le> dec (n * 10 + digit_val c) cs" by (rule Cons.IH)
  finally show ?case by simp
qed

lemma digit_val_le: "is_digit c \<Longrightarrow> digit_val c \<le> 9"
  unfolding is_digit_def digit_val_def by arith

lemma ParseUint_loop_ok:
  assumes "maxVal < 2 ^ 64" and "list_all is_digit cs" and "dec n cs \<le> maxVal"
  shows "ParseUint_loop maxVal n cs = (dec n cs, None)"
  using assms(2,3)
proof (induction cs arbitrary: n)
  case Nil
  show ?case by simp
next
  case (Cons c cs)
  let ?n1 = "n * 10 + digit_val c"
  have "?n1 \<le> dec ?n1 cs" by (rule dec_mono)
  with Cons.prems(2) have n1: "?n1 \<le> maxVal" by simp
  with assms(1) have small: "?n1 < 2 ^ 64" by simp
  then have "n < maxUint64 div 10 + 1" by (simp add: maxUint64_def)
  moreover have "?n1 mod 2 ^ 64 = ?n1" using small by simp
  moreover have "ParseUint_loop maxVal ?n1 cs = (dec ?n1 cs, None)"
    using Cons.prems by (intro Cons.IH) simp_all
  ultimately show ?case
    using Cons.prems(1) n1 by (simp add: Let_def)
qed

lemma ParseUint_loop_None:
  assumes "snd (ParseUint_loop maxVal n cs) = None" and "n \<le> maxVal"
  shows "list_all is_digit cs \<and> dec n cs \<le> maxVal \<and> fst (ParseUint_loop maxVal n cs) = dec n cs"
  using assms
proof (induction cs arbitrary: n)
  case Nil
  then show ?case by simp
next
  case (Cons c cs)
  let ?n1 = "(n * 10 + digit_val c) mod 2 ^ 64"
  from Cons.prems have c: "is_digit c"
    by (auto split: if_splits)
  from Cons.prems c have n: "n < maxUint64 div 10 + 1"
    by (auto split: if_splits)
  from Cons.prems c n have ok: "\<not> ?n1 < n * 10" "?n1 \<le> maxVal"
    and rest: "snd (ParseUint_loop maxVal ?n1 cs) = None"
    by (auto simp: Let_def split: if_splits)
  have "digit_val c \<le> 9" using c by (rule digit_val_le)
  with n ok(1) have "n * 10 + digit_val c < 2 ^ 64"
    unfolding maxUint64_def
    by (simp add: mod_if split: if_splits)
  then have eq: "?n1 = n * 10 + digit_val c" by simp
  from Cons.IH [OF rest ok(2)] eq c n ok show ?case
    by (simp add: Let_def)
qed

lemma ParseUint_loop_Range:
  "snd (ParseUint_loop maxVal n cs) = Some ErrRange \<Longrightarrow> fst (ParseUint_loop maxVal n cs) = maxVal"
  by (induction cs arbitrary: n) (auto simp: Let_def split: if_splits)

lemma ParseUint_loop_Syntax:
  "list_all is_digit cs \<Longrightarrow> snd (ParseUint_loop maxVal n cs) \<noteq> Some ErrSyntax"
  by (induction cs arbitrary: n) (auto simp: Let_def split: if_splits)


lemma spec_int_text_strip: "spec_int_text s \<longleftrightarrow> s \<noteq> [] \<and> spec_decimal_text (strip_sign s)"
  by (cases s) (auto simp: spec_int_text_def strip_sign_def spec_decimal_text_def)

lemma spec_int_value_strip:
  "s \<noteq> [] \<Longrightarrow> spec_int_value s =
     (if hd s = CHR ''-'' then - int (spec_decimal_value (strip_sign s))
      else int (spec_decimal_value (strip_sign s)))"
  by (cases s) (auto simp: spec_int_value_def strip_sign_def)

lemma ParseInt_strip:
  "s \<noteq> [] \<Longrightarrow> ParseInt s 32 =
     (let un = fst (ParseUint (strip_sign s) 32); err = snd (ParseUint (strip_sign s) 32)
      in if err = Some ErrSyntax then Inl (NumError ''ParseInt'' s ErrSyntax)
         else if hd s \<noteq> CHR ''-'' \<and> un \<ge> 2 ^ 31 then Inl (NumError ''ParseInt'' s ErrRange)
         else if hd s = CHR ''-'' \<and> un > 2 ^ 31 then Inl (NumError ''ParseInt'' s ErrRange)
         else Inr (if hd s = CHR ''-'' then - int un else int un))"
  by (simp add: ParseInt_def strip_sign_def Let_def split: prod.splits)

lemma ParseUint_32_ok:
  assumes "spec_decimal_text ds" and "spec_decimal_value ds < 2 ^ 32"
  shows "ParseUint ds 32 = (spec_decimal_value ds, None)"
proof -
  have "ParseUint_loop (2 ^ 32 - 1) 0 ds = (dec 0 ds, None)"
    using assms by (intro ParseUint_loop_ok) (simp_all add: spec_decimal_text_def spec_decimal_value_def)
  with assms(1) show ?thesis
    by (simp add: ParseUint_def spec_decimal_text_def spec_decimal_value_def)
qed

lemma ParseUint_32_None:
  assumes "snd (ParseUint ds 32) = None"
  shows "spec_decimal_text ds \<and> spec_decimal_value ds < 2 ^ 32
    \<and> fst (ParseUint ds 32) = spec_decimal_value ds"
proof -
  from assms have ne: "ds \<noteq> []" and loop: "snd (ParseUint_loop (2 ^ 32 - 1) 0 ds) = None"
    by (auto simp: ParseUint_def split: if_splits)
  from ParseUint_loop_None [OF loop] ne show ?thesis
    by (simp add: ParseUint_def spec_decimal_text_def spec_decimal_value_def)
qed

lemma ParseUint_32_Range:
  "snd (ParseUint ds 32) = Some ErrRange \<Longrightarrow> fst (ParseUint ds 32) = 2 ^ 32 - 1"
  using ParseUint_loop_Range [of "2 ^ 32 - 1" 0 ds] by (simp add: ParseUint_def split: if_splits)

lemma ParseUint_32_Syntax:
  "spec_decimal_text ds \<Longrightarrow> snd (ParseUint ds 32) \<noteq> Some ErrSyntax"
  using ParseUint_loop_Syntax [of ds "2 ^ 32 - 1" 0]
  by (simp add: ParseUint_def spec_decimal_text_def)

lemma snd_ParseUint_cases:
  obtains "snd (ParseUint ds b) = None" | "snd (ParseUint ds b) = Some ErrSyntax"
    | "snd (ParseUint ds b) = Some ErrRange"
proof (cases "snd (ParseUint ds b)")
  case None
  then show ?thesis by (rule that(1))
next
  case (Some k)
  then show ?thesis by (cases k) (auto intro: that)
qed

lemma ParseInt_32_ok:
  assumes "spec_int_text s" and "in_int32 (spec_int_value s)"
  shows "ParseInt s 32 = Inr (spec_int_value s)"
proof -
  from assms(1) have ne: "s \<noteq> []" and digits: "spec_decimal_text (strip_sign s)"
    by (simp_all add: spec_int_text_strip)
  from assms(2) ne have small: "spec_decimal_value (strip_sign s) < 2 ^ 32"
    by (auto simp: in_int32_def spec_int_value_strip split: if_splits)
  from ParseUint_32_ok [OF digits small] assms(2) ne show ?thesis
    by (auto simp: ParseInt_strip in_int32_def spec_int_value_strip split: if_splits)
qed

lemma ParseInt_32_range:
  assumes "spec_int_text s" and "\<not> in_int32 (spec_int_value s)"
  shows "ParseInt s 32 = Inl (NumError ''ParseInt'' s ErrRange)"
proof -
  from assms(1) have ne: "s \<noteq> []" and digits: "spec_decimal_text (strip_sign s)"
    by (simp_all add: spec_int_text_strip)
  show ?thesis
  proof (cases "spec_decimal_value (strip_sign s) < 2 ^ 32")
    case True
    from ParseUint_32_ok [OF digits True] assms(2) ne show ?thesis
      by (auto simp: ParseInt_strip in_int32_def spec_int_value_strip split: if_splits)
  next
    case False
    with ParseUint_32_None [of "strip_sign s"] ParseUint_32_Syntax [OF digits]
    have "snd (ParseUint (strip_sign s) 32) = Some ErrRange"
      by (cases rule: snd_ParseUint_cases [of "strip_sign s" 32]) auto
    with ParseUint_32_Range [of "strip_sign s"] ne show ?thesis
      by (simp add: ParseInt_strip Let_def)
  qed
qed

lemma ParseInt_32_malformed:
  assumes "\<not> spec_int_text s"
  shows "ParseInt s 32 = Inl (NumError ''ParseInt'' s ErrSyntax)
    \<or> ParseInt s 32 = Inl (NumError ''ParseInt'' s ErrRange)"
proof (cases "s = []")
  case True
  then show ?thesis by (simp add: ParseInt_def)
next
  case False
  with assms have "\<not> spec_decimal_text (strip_sign s)"
    by (simp add: spec_int_text_strip)
  with ParseUint_32_None [of "strip_sign s"] have "snd (ParseUint (strip_sign s) 32) \<noteq> None"
    by blast
  then consider "snd (ParseUint (strip_sign s) 32) = Some ErrSyntax"
    | "snd (ParseUint (strip_sign s) 32) = Some ErrRange"
    by (cases rule: snd_ParseUint_cases [of "strip_sign s" 32]) auto
  then show ?thesis
  proof cases
    case 1
    with False show ?thesis by (simp add: ParseInt_strip Let_def)
  next
    case 2
    with ParseUint_32_Range [of "strip_sign s"] False show ?thesis
      by (simp add: ParseInt_strip Let_def)
  qed
qed


lemma of_char_digit_char: "d < 10 \<Longrightarrow> of_char (digit_char d) = 48 + d"
  by (simp add: digit_char_def)

lemma is_digit_digit_char: "d < 10 \<Longrightarrow> is_digit (digit_char d)"
  by (simp add: is_digit_def of_char_digit_char)

lemma digit_val_digit_char: "d < 10 \<Longrightarrow> digit_val (digit_char d) = d"
  by (simp add: digit_val_def of_char_digit_char)

lemma formatBits_digits: "formatBits n \<noteq> [] \<and> list_all is_digit (formatBits n)"
proof (induction n rule: formatBits.induct)
  case (1 n)
  show ?case
  proof (cases "n < 10")
    case True
    then show ?thesis by (simp add: is_digit_digit_char)
  next
    case False
    with "1.IH" show ?thesis
      by (subst (1 2) formatBits.simps) (simp add: is_digit_digit_char)
  qed
qed

lemma formatBits_value: "spec_decimal_value (formatBits n) = n"
proof (induction n rule: formatBits.induct)
  case (1 n)
  show ?case
  proof (cases "n < 10")
    case True
    then show ?thesis by (simp add: spec_decimal_value_def digit_val_digit_char)
  next
    case False
    with "1.IH" show ?thesis
      by (subst formatBits.simps) (simp add: spec_decimal_value_def digit_val_digit_char)
  qed
qed

lemma formatBits_text: "spec_decimal_text (formatBits n)"
  using formatBits_digits [of n] by (simp add: spec_decimal_text_def)

lemma formatBits_no_sign: "hd (formatBits n) \<noteq> CHR ''+'' \<and> hd (formatBits n) \<noteq> CHR ''-''"
proof -
  from formatBits_digits [of n] have "is_digit (hd (formatBits n))"
    by (cases "formatBits n") simp_all
  then show ?thesis by (auto simp: is_digit_def)
qed

lemma FormatInt_text: "spec_int_text (FormatInt i)"
  using formatBits_text [of "nat i"] formatBits_text [of "nat (- i)"] formatBits_no_sign [of "nat i"]
  by (cases "formatBits (nat i)") (auto simp: FormatInt_def spec_int_text_def spec_decimal_text_def)

lemma spec_int_value_unsigned:
  "s \<noteq> [] \<Longrightarrow> hd s \<noteq> CHR ''+'' \<Longrightarrow> hd s \<noteq> CHR ''-'' \<Longrightarrow>
     spec_int_value s = int (spec_decimal_value s)"
  by (cases s) (simp_all add: spec_int_value_def)

lemma FormatInt_value: "spec_int_value (FormatInt i) = i"
proof (cases "i < 0")
  case True
  then show ?thesis
    by (simp add: FormatInt_def spec_int_value_def formatBits_value)
next
  case False
  have "spec_int_value (formatBits (nat i)) = int (spec_decimal_value (formatBits (nat i)))"
    using formatBits_digits [of "nat i"] formatBits_no_sign [of "nat i"]
    by (intro spec_int_value_unsigned) simp_all
  with False show ?thesis
    by (simp add: FormatInt_def formatBits_value)
qed

lemma ParseInt_FormatInt: "in_int32 i \<Longrightarrow> ParseInt (FormatInt i) 32 = Inr i"
  using ParseInt_32_ok [of "FormatInt i"] by (simp add: FormatInt_text FormatInt_value)

lemma in_int32_sint: "in_int32 (sint (v :: int32))"
  using sint_ge [of v] sint_lt [of v] by (simp add: in_int32_def)


lemma wire_string_FormatInt: "wire_string (FormatInt i) = FormatInt i"
proof -
  have digit: "in_bytes 0 0x7F c" if "is_digit c" for c
    using that by (simp add: is_digit_def in_bytes_def)
  have "list_all (in_bytes 0 0x7F) (formatBits n)" for n
    using formatBits_digits [of n] digit by (simp add: list_all_iff)
  then have "list_all (in_bytes 0 0x7F) (FormatInt i)"
    by (simp add: FormatInt_def in_bytes_def)
  then show ?thesis by (rule wire_string_ascii)
qed

text \<open>
  Claim C5. \<^verbatim>\<open>Int32.JSON\<close> puts the value into the map as a string, the base-10 text of the
  number with a minus sign when it is negative, not as a number. Decoding the encoding of any
  \<^verbatim>\<open>int32\<close> gives back the same \<^verbatim>\<open>int32\<close>, through the constructor and through the
  dispatcher. An input with the Int32 tag whose \<^verbatim>\<open>"value"\<close> text is not a decimal integer
  fails with a \<^verbatim>\<open>NumError\<close> of \<^verbatim>\<open>ParseInt\<close>, and one whose text is a decimal integer outside
  the 32-bit signed range fails with the range error.
\<close>

theorem Int32_decimal_text_roundtrip:
  "Int32_JSON v = GoMap [(''type'', GoInt 4), (''value'', GoString (FormatInt (sint v)))]
   \<and> spec_int_text (FormatInt (sint v))
   \<and> spec_int_value (FormatInt (sint v)) = sint v
   \<and> map_option NewInt32FromJSON (wire text (Int32_JSON v)) = Some (Inr v)
   \<and> map_option (NewExpressionFromJSON fl) (wire text (JSON fl (EInt32 v))) =
       Some (Inr (EInt32 v))
   \<and> (ToUint (Get ''type'' json) = TypeInt32 \<and> \<not> spec_int_text (ToString (Get ''value'' json))
        \<longrightarrow> NewInt32FromJSON json =
              Inl (NumError ''ParseInt'' (ToString (Get ''value'' json)) ErrSyntax)
          \<or> NewInt32FromJSON json =
              Inl (NumError ''ParseInt'' (ToString (Get ''value'' json)) ErrRange))
   \<and> (ToUint (Get ''type'' json) = TypeInt32 \<and> spec_int_text (ToString (Get ''value'' json))
        \<and> \<not> in_int32 (spec_int_value (ToString (Get ''value'' json)))
        \<longrightarrow> NewInt32FromJSON json =
              Inl (NumError ''ParseInt'' (ToString (Get ''value'' json)) ErrRange))"
proof -
  have rt: "map_option NewInt32FromJSON (wire text (Int32_JSON v)) = Some (Inr v)"
    by (simp add: wire_def maxDepth_def Int32_JSON_def NewInt32FromJSON_def
        wire_string_FormatInt ParseInt_FormatInt in_int32_sint)
  then have "map_option (NewExpressionFromJSON fl) (wire text (JSON fl (EInt32 v))) =
      Some (Inr (EInt32 v))"
    by (simp add: wire_def maxDepth_def NewExpressionFromJSON.simps Let_def Int32_JSON_def
        Type_defs)
  moreover have "NewInt32FromJSON json =
        Inl (NumError ''ParseInt'' (ToString (Get ''value'' json)) ErrSyntax)
      \<or> NewInt32FromJSON json =
        Inl (NumError ''ParseInt'' (ToString (Get ''value'' json)) ErrRange)"
    if "ToUint (Get ''type'' json) = TypeInt32"
      and "\<not> spec_int_text (ToString (Get ''value'' json))"
    using that ParseInt_32_malformed [of "ToString (Get ''value'' json)"]
    by (auto simp: NewInt32FromJSON_def)
  moreover have "NewInt32FromJSON json =
        Inl (NumError ''ParseInt'' (ToString (Get ''value'' json)) ErrRange)"
    if "ToUint (Get ''type'' json) = TypeInt32"
      and "spec_int_text (ToString (Get ''value'' json))"
      and "\<not> in_int32 (spec_int_value (ToString (Get ''value'' json)))"
    using that by (simp add: NewInt32FromJSON_def ParseInt_32_range)
  ultimately show ?thesis
    using rt by (simp add: Int32_JSON_def Type_defs FormatInt_text FormatInt_value)
qed

theorem Int32_decimal_text_roundtrip_witness:
  \<open>ToUint (Get ''type''
      (objectLazyAny ''{"type":4,"value":"4x"}''
         [(''type'', numberLazyAny ''4''), (''value'', stringAny ''4x'')])) = TypeInt32
   \<and> \<not> spec_int_text ''4x''
   \<and> NewInt32FromJSON
        (objectLazyAny ''{"type":4,"value":"4x"}''
           [(''type'', numberLazyAny ''4''), (''value'', stringAny ''4x'')]) =
       Inl (NumError ''ParseInt'' ''4x'' ErrSyntax)
   \<and> ToUint (Get ''type''
      (objectLazyAny ''{"type":4,"value":"2147483648"}''
         [(''type'', numberLazyAny ''4''), (''value'', stringAny ''2147483648'')])) = TypeInt32
   \<and> spec_int_text ''2147483648''
   \<and> \<not> in_int32 (spec_int_value ''2147483648'')
   \<and> NewInt32FromJSON
        (objectLazyAny ''{"type":4,"value":"2147483648"}''
           [(''type'', numberLazyAny ''4''), (''value'', stringAny ''2147483648'')]) =
       Inl (NumError ''ParseInt'' ''2147483648'' ErrRange)\<close>
proof -
  have syn: \<open>ToUint (Get ''type''
      (objectLazyAny ''{"type":4,"value":"4x"}''
         [(''type'', numberLazyAny ''4''), (''value'', stringAny ''4x'')])) = TypeInt32\<close>
    \<open>\<not> spec_int_text ''4x''\<close>
    \<open>NewInt32FromJSON
        (objectLazyAny ''{"type":4,"value":"4x"}''
           [(''type'', numberLazyAny ''4''), (''value'', stringAny ''4x'')]) \<noteq>
       Inl (NumError ''ParseInt'' ''4x'' ErrRange)\<close>
    by (simp_all add: Type_defs number_defs spec_int_text_def spec_decimal_text_def
        NewInt32FromJSON_def)
  have rng: \<open>ToUint (Get ''type''
      (objectLazyAny ''{"type":4,"value":"2147483648"}''
         [(''type'', numberLazyAny ''4''), (''value'', stringAny ''2147483648'')])) = TypeInt32\<close>
    \<open>spec_int_text ''2147483648''\<close>
    \<open>\<not> in_int32 (spec_int_value ''2147483648'')\<close>
    by (simp_all add: Type_defs number_defs spec_int_text_def spec_decimal_text_def
        spec_int_value_def spec_decimal_value_def in_int32_def)
  show ?thesis
    using syn rng
      Int32_decimal_text_roundtrip [of _ _ _
        \<open>objectLazyAny ''{"type":4,"value":"4x"}''
           [(''type'', numberLazyAny ''4''), (''value'', stringAny ''4x'')]\<close>]
      Int32_decimal_text_roundtrip [of _ _ _
        \<open>objectLazyAny ''{"type":4,"value":"2147483648"}''
           [(''type'', numberLazyAny ''4''), (''value'', stringAny ''2147483648'')]\<close>]
    by simp
qed

section \<open>The round trip\<close>

text \<open>
  Apart from the name of a Module and from strings that are not well-formed UTF-8, decoding
  inverts encoding on every expression, provided that \<^verbatim>\<open>ParseFloat\<close> inverts \<^verbatim>\<open>FormatFloat\<close>
  on the text that is read back. For each of the six functions that take part in the
  recursion: decoding the encoding of a value yields what is left of the value on the wire.
\<close>

lemma Type_received: "Type (received e) = Type e"
  by (cases e) simp_all

lemma decode_each_map:
  "(\<And>x. x \<in> set xs \<Longrightarrow> f (g x) = Inr (h x)) \<Longrightarrow> decode_each f (map g xs) = Inr (map h xs)"
  by (induction xs) simp_all

lemma NewIDFromJSON_ID_JSON: "NewIDFromJSON (wire_any text (ID_JSON i)) = Inr (received_ID i)"
  by (cases i) (simp add: NewIDFromJSON_def)

lemma decode_each_IDs:
  "decode_each NewIDFromJSON (map (wire_any text) (map ID_JSON ps)) = Inr (map received_ID ps)"
  using decode_each_map [of ps NewIDFromJSON "\<lambda>p. wire_any text (ID_JSON p)" received_ID]
  by (simp add: NewIDFromJSON_ID_JSON comp_def)

lemma tag_of_JSON:
  "ToUint (Get ''type'' (wire_any text (Module_JSON fl m))) = 1"
  "ToUint (Get ''type'' (wire_any text (Definition_JSON fl d))) = 8"
  "ToUint (Get ''type'' (wire_any text (Lambda_JSON fl l))) = 9"
  "ToUint (Get ''type'' (wire_any text (Call_JSON fl c))) = 10"
  "ToUint (Get ''type'' (wire_any text (AnonymousCall_JSON fl ac))) = 11"
  by (cases m, simp add: Type_defs, cases d, simp add: Type_defs, cases l, simp add: Type_defs,
      cases c, simp add: Type_defs, cases ac, simp add: Type_defs)

lemma roundtrip_wire_any:
  assumes floats: "\<And>f. ParseFloat fl (wire_string (FormatFloat fl f)) = Inr f"
  shows "NewExpressionFromJSON fl (wire_any text (JSON fl e)) = Inr (received e)"
    and "NewDefinitionFromJSON fl (wire_any text (Definition_JSON fl d)) =
          Inr (received_Definition d)"
    and "NewLambdaFromJSON fl (wire_any text (Lambda_JSON fl l)) = Inr (received_Lambda l)"
    and "NewCallFromJSON fl (wire_any text (Call_JSON fl c)) = Inr (received_Call c)"
    and "NewAnonymousCallFromJSON fl (wire_any text (AnonymousCall_JSON fl ac)) =
          Inr (received_AnonymousCall ac)"
    and "NewModuleFromJSON fl (wire_any text (Module_JSON fl m)) = Inr (received_Module m)"
proof (induction e and d and l and c and ac and m)
  case (EModule m)
  then show ?case
    by (simp add: NewExpressionFromJSON.simps Let_def tag_of_JSON Type_defs del: Module_JSON.simps)
next
  case ENil
  show ?case
    by (simp add: NewExpressionFromJSON.simps Let_def Nil_JSON_def NewNilFromJSON_def Type_defs)
next
  case (EBoolean b)
  show ?case
    by (simp add: NewExpressionFromJSON.simps Let_def Boolean_JSON_def NewBooleanFromJSON_def
        Type_defs)
next
  case (EInt32 i)
  show ?case
    by (simp add: NewExpressionFromJSON.simps Let_def Int32_JSON_def NewInt32FromJSON_def
        wire_string_FormatInt ParseInt_FormatInt in_int32_sint Type_defs)
next
  case (EFloat64 f)
  show ?case
    by (simp add: NewExpressionFromJSON.simps Let_def Float64_JSON_def NewFloat64FromJSON_def
        floats Type_defs)
next
  case (EString s)
  show ?case
    by (simp add: NewExpressionFromJSON.simps Let_def String_JSON_def NewStringFromJSON_def
        Type_defs)
next
  case (EID i)
  show ?case
    using NewIDFromJSON_ID_JSON [of "text" i]
    by (cases i) (simp add: NewExpressionFromJSON.simps Let_def Type_defs)
next
  case (EDefinition d)
  then show ?case
    by (simp add: NewExpressionFromJSON.simps Let_def tag_of_JSON Type_defs
        del: Definition_JSON.simps)
next
  case (ELambda l)
  then show ?case
    by (simp add: NewExpressionFromJSON.simps Let_def tag_of_JSON Type_defs
        del: Lambda_JSON.simps)
next
  case (ECall c)
  then show ?case
    by (simp add: NewExpressionFromJSON.simps Let_def tag_of_JSON Type_defs del: Call_JSON.simps)
next
  case (EAnonymousCall ac)
  then show ?case
    by (simp add: NewExpressionFromJSON.simps Let_def tag_of_JSON Type_defs
        del: AnonymousCall_JSON.simps)
next
  case (Definition i e)
  then show ?case
    using NewIDFromJSON_ID_JSON [of "text" i]
    by (simp add: NewDefinitionFromJSON.simps)
next
  case (Lambda ps e)
  then show ?case
    using decode_each_IDs [of "text" ps]
    by (simp add: NewLambdaFromJSON.simps)
next
  case (Call i as)
  have "decode_each (NewExpressionFromJSON fl) (map (wire_any text) (map (JSON fl) as)) =
      Inr (map received as)"
    using decode_each_map [of as "NewExpressionFromJSON fl" "\<lambda>a. wire_any text (JSON fl a)"
        received]
      Call.IH by (simp add: comp_def)
  then show ?case
    using NewIDFromJSON_ID_JSON [of "text" i]
    by (simp add: NewCallFromJSON.simps)
next
  case (AnonymousCall l as)
  have "decode_each (NewExpressionFromJSON fl) (map (wire_any text) (map (JSON fl) as)) =
      Inr (map received as)"
    using decode_each_map [of as "NewExpressionFromJSON fl" "\<lambda>a. wire_any text (JSON fl a)"
        received]
      AnonymousCall.IH(2) by (simp add: comp_def)
  then show ?case
    using AnonymousCall.IH(1)
    by (simp add: NewAnonymousCallFromJSON.simps del: Lambda_JSON.simps)
next
  case (Module name ds)
  have "decode_each (NewDefinitionFromJSON fl)
      (map (wire_any text) (map (Definition_JSON fl) ds)) = Inr (map received_Definition ds)"
    using decode_each_map [of ds "NewDefinitionFromJSON fl"
        "\<lambda>d. wire_any text (Definition_JSON fl d)" received_Definition]
      Module.IH by (simp add: comp_def)
  then show ?case
    by (simp add: NewModuleFromJSON.simps)
qed

text \<open>
  The same for the value that the tests hand over: within the reader's nesting limit, the
  decoder returns what is left of the expression on the wire. It has the variant and the tag
  of the expression (\<open>Type_received\<close>).
\<close>

lemma roundtrip_up_to_Module_name:
  assumes "\<And>f. ParseFloat fl (wire_string (FormatFloat fl f)) = Inr f"
    and "wire text (JSON fl e) = Some a"
  shows "NewExpressionFromJSON fl a = Inr (received e)"
proof -
  from assms(2) have "a = wire_any text (JSON fl e)"
    by (simp add: wire_def split: if_splits)
  with assms(1) show ?thesis
    by (simp add: roundtrip_wire_any)
qed


end
